theory Spec2Isabelle
  imports Complex_Main "HOL-Library.Multiset"
begin

section \<open>Python values used by both modules\<close>

text \<open>
  A Python exception is its class name and its \<^verbatim>\<open>.message\<close> attribute (Python 2). Only
  subclasses of \<^verbatim>\<open>Exception\<close> are modelled: these are what \<^verbatim>\<open>except Exception\<close> catches.
  Floating-point numbers are modelled as real numbers, so rounding, infinities and NaN are
  outside the model.
\<close>

datatype exn = Exn (exn_class: string) (message: string)

definition RuntimeError :: "string \<Rightarrow> exn" where
  "RuntimeError msg = Exn ''RuntimeError'' msg"

definition KeyError :: "string \<Rightarrow> exn" where
  "KeyError key = Exn ''KeyError'' key"

definition ValueError :: "string \<Rightarrow> exn" where
  "ValueError msg = Exn ''ValueError'' msg"

text \<open>
  A generator (a finite lazy sequence): it stops, yields an element and goes on, or
  raises. Consumers pattern-match on it in the order in which a \<^verbatim>\<open>for\<close> loop pulls.
\<close>

datatype 'a gen = Stop | Yield 'a "'a gen" | Raise exn

fun gen_of_list :: "'a list \<Rightarrow> 'a gen" where
  "gen_of_list [] = Stop"
| "gen_of_list (x # xs) = Yield x (gen_of_list xs)"

fun gen_prepend :: "'a list \<Rightarrow> 'a gen \<Rightarrow> 'a gen" where
  "gen_prepend [] g = g"
| "gen_prepend (x # xs) g = Yield x (gen_prepend xs g)"

fun gen_map :: "('a \<Rightarrow> 'b) \<Rightarrow> 'a gen \<Rightarrow> 'b gen" where
  "gen_map f Stop = Stop"
| "gen_map f (Yield x g) = Yield (f x) (gen_map f g)"
| "gen_map f (Raise e) = Raise e"

section \<open>numpy arrays\<close>

text \<open>
  A two-dimensional float array: its shape (rows, columns) and its items. Items outside
  the shape carry no meaning.
\<close>

record ndarray =
  shape :: "nat \<times> nat"
  item :: "nat \<Rightarrow> nat \<Rightarrow> real"

definition numpy_ones :: "nat \<Rightarrow> nat \<Rightarrow> ndarray" where
  "numpy_ones n m = \<lparr>shape = (n, m), item = (\<lambda>i j. 1)\<rparr>"

text \<open>
  Float power \<^verbatim>\<open>x ** y\<close>: anything to the power 0 is 1, a positive base is the real power,
  and 0 to a positive power is 0. Outside this domain (a negative base, or 0 to a
  negative power) IEEE gives NaN or infinity, which the real numbers do not have; there
  the value of \<open>float_power\<close> is the one HOL's total \<open>powr\<close> has and does not stand for
  the program's. The statements about values below keep bases and exponents in the
  domain.
\<close>

definition float_power :: "real \<Rightarrow> real \<Rightarrow> real" where
  "float_power x y = (if y = 0 then 1 else x powr y)"

text \<open>\<^verbatim>\<open>c ** a\<close> and \<^verbatim>\<open>c - a\<close> for a scalar \<open>c\<close> and an array \<open>a\<close>.\<close>

definition scalar_power :: "real \<Rightarrow> ndarray \<Rightarrow> ndarray" where
  "scalar_power c a = \<lparr>shape = shape a, item = (\<lambda>i j. float_power c (item a i j))\<rparr>"

definition scalar_minus :: "real \<Rightarrow> ndarray \<Rightarrow> ndarray" where
  "scalar_minus c a = \<lparr>shape = shape a, item = (\<lambda>i j. c - item a i j)\<rparr>"

text \<open>
  In-place multiplication \<^verbatim>\<open>a *= b\<close> of two-dimensional arrays, with numpy's broadcasting:
  each dimension of \<open>b\<close> equals that of \<open>a\<close> or is 1 (then \<open>b\<close> is repeated along it);
  otherwise numpy raises ValueError. The text of numpy's message is not modelled.
\<close>

definition imul :: "ndarray \<Rightarrow> ndarray \<Rightarrow> exn + ndarray" where
  "imul a b =
     (let (ra, ca) = shape a; (rb, cb) = shape b in
      if (rb = ra \<or> rb = 1) \<and> (cb = ca \<or> cb = 1)
      then Inr \<lparr>shape = shape a,
                item = (\<lambda>i j. item a i j *
                          item b (if rb = ra then i else 0) (if cb = ca then j else 0))\<rparr>
      else Inl (ValueError ''operands could not be broadcast together''))"

section \<open>Site collections\<close>

text \<open>
  Modelled from the spec: the site collection class (module
  \<^verbatim>\<open>openquake.hazardlib.site\<close>) is not among the sources. A site collection is the ordered
  list of the positions its sites have in the complete collection; its length is the
  number of its sites. \<open>expand\<close> scatters the rows of an array defined over the
  collection into an array of \<open>total_sites\<close> rows filled with the placeholder, row \<open>k\<close>
  of the data going to the position of the \<open>k\<close>-th site.
\<close>

type_synonym site_collection = "nat list"

fun scatter ::
  "(nat \<Rightarrow> nat \<Rightarrow> real) \<Rightarrow> nat \<Rightarrow> nat list \<Rightarrow> (nat \<Rightarrow> nat \<Rightarrow> real) \<Rightarrow> nat \<Rightarrow> nat \<Rightarrow> real" where
  "scatter rows k [] result = result"
| "scatter rows k (idx # rest) result = scatter rows (Suc k) rest (result(idx := rows k))"

definition expand :: "site_collection \<Rightarrow> ndarray \<Rightarrow> nat \<Rightarrow> real \<Rightarrow> ndarray" where
  "expand r_sites data total_sites placeholder =
     \<lparr>shape = (total_sites, snd (shape data)),
      item = scatter (item data) 0 r_sites (\<lambda>i j. placeholder)\<rparr>"

section \<open>Collaborators of the hazard curve calculator\<close>

text \<open>
  Sources, ruptures and ground-shaking intensity models are objects whose classes are
  not among the sources; the calculator uses them through the attributes and methods
  below, which the records hold. A method that may raise returns a sum.
  The three contexts a model builds are one value of type \<open>'ctx\<close>.
\<close>

record rupture =
  tectonic_region_type :: string
  get_probability_one_or_more_occurrences :: "exn + real"

record ('tom, 'rup) source =
  source_id :: string
  iter_ruptures :: "'tom \<Rightarrow> 'rup gen"

record ('rup, 'ctx, 'imt) gsim =
  make_contexts :: "site_collection \<Rightarrow> 'rup \<Rightarrow> exn + 'ctx"
  get_poes_cav :: "'ctx \<Rightarrow> 'imt \<Rightarrow> real list \<Rightarrow> real \<Rightarrow> real \<Rightarrow> exn + ndarray"

text \<open>
  A dict is an association list in which the first binding of a key counts; iterating
  over it visits each key once. \<^verbatim>\<open>d[k]\<close> raises KeyError on a missing key.
\<close>

definition dict_keys :: "('k \<times> 'v) list \<Rightarrow> 'k list" where
  "dict_keys d = remdups (map fst d)"

definition getitem :: "('k \<times> 'v) list \<Rightarrow> ('k \<Rightarrow> string) \<Rightarrow> 'k \<Rightarrow> exn + 'v" where
  "getitem d str k = (case map_of d k of None \<Rightarrow> Inl (KeyError (str k)) | Some v \<Rightarrow> Inr v)"

text \<open>
  Modelled from the spec: the no-op filters (module \<^verbatim>\<open>openquake.hazardlib.calc.filters\<close>)
  are not among the sources; they pass every pair through unchanged.
\<close>

definition source_site_noop_filter :: "('a \<times> site_collection) gen \<Rightarrow> ('a \<times> site_collection) gen" where
  "source_site_noop_filter sources_sites = sources_sites"

definition rupture_site_noop_filter :: "('a \<times> site_collection) gen \<Rightarrow> ('a \<times> site_collection) gen" where
  "rupture_site_noop_filter ruptures_sites = ruptures_sites"

text \<open>
  Modelled from the spec: a filter that treats each pair on its own, as the contract of
  the filters says: it raises, drops the pair, or yields it with a site collection, and
  keeps the order of the pairs.
\<close>

fun filter_pairs ::
  "('a \<Rightarrow> site_collection \<Rightarrow> exn + site_collection option) \<Rightarrow>
   ('a \<times> site_collection) gen \<Rightarrow> ('a \<times> site_collection) gen" where
  "filter_pairs f Stop = Stop"
| "filter_pairs f (Raise e) = Raise e"
| "filter_pairs f (Yield (x, s) g) =
     (case f x s of
        Inl e \<Rightarrow> Raise e
      | Inr None \<Rightarrow> filter_pairs f g
      | Inr (Some s') \<Rightarrow> Yield (x, s') (filter_pairs f g))"

section \<open>The hazard curve calculator\<close>

text \<open>
  The body of \<^verbatim>\<open>for imt in imts\<close> and the loop itself: the curves are a dict from the
  intensity measure types to arrays, updated in place.
\<close>

definition update_curve ::
  "('rup, 'ctx, 'imt) gsim \<Rightarrow> 'ctx \<Rightarrow> real \<Rightarrow> site_collection \<Rightarrow> nat \<Rightarrow>
   ('imt \<times> real list) list \<Rightarrow> ('imt \<Rightarrow> string) \<Rightarrow> real \<Rightarrow> real \<Rightarrow>
   ('imt \<rightharpoonup> ndarray) \<Rightarrow> 'imt \<Rightarrow> exn + ('imt \<rightharpoonup> ndarray)" where
  "update_curve g ctx prob r_sites total_sites imts str truncation_level cav_min curves imt =
     (case getitem imts str imt of
        Inl e \<Rightarrow> Inl e
      | Inr imls \<Rightarrow>
     (case get_poes_cav g ctx imt imls truncation_level cav_min of
        Inl e \<Rightarrow> Inl e
      | Inr poes \<Rightarrow>
     (case curves imt of
        None \<Rightarrow> Inl (KeyError (str imt))
      | Some curve \<Rightarrow>
     (case imul curve (expand r_sites (scalar_power (1 - prob) poes) total_sites 1) of
        Inl e \<Rightarrow> Inl e
      | Inr curve' \<Rightarrow> Inr (curves(imt \<mapsto> curve'))))))"

fun imt_loop ::
  "('rup, 'ctx, 'imt) gsim \<Rightarrow> 'ctx \<Rightarrow> real \<Rightarrow> site_collection \<Rightarrow> nat \<Rightarrow>
   ('imt \<times> real list) list \<Rightarrow> ('imt \<Rightarrow> string) \<Rightarrow> real \<Rightarrow> real \<Rightarrow>
   ('imt \<rightharpoonup> ndarray) \<Rightarrow> 'imt list \<Rightarrow> exn + ('imt \<rightharpoonup> ndarray)" where
  "imt_loop g ctx prob r_sites total_sites imts str truncation_level cav_min curves [] =
     Inr curves"
| "imt_loop g ctx prob r_sites total_sites imts str truncation_level cav_min curves (imt # rest) =
     (case update_curve g ctx prob r_sites total_sites imts str truncation_level cav_min
             curves imt of
        Inl e \<Rightarrow> Inl e
      | Inr curves' \<Rightarrow>
          imt_loop g ctx prob r_sites total_sites imts str truncation_level cav_min curves' rest)"

text \<open>The body of the loop over the filtered (rupture, sites) pairs.\<close>

definition process_rupture ::
  "(string \<times> ('r rupture_scheme, 'ctx, 'imt) gsim) list \<Rightarrow> nat \<Rightarrow>
   ('imt \<times> real list) list \<Rightarrow> ('imt \<Rightarrow> string) \<Rightarrow> real \<Rightarrow> real \<Rightarrow>
   ('imt \<rightharpoonup> ndarray) \<Rightarrow> 'r rupture_scheme \<times> site_collection \<Rightarrow>
   exn + ('imt \<rightharpoonup> ndarray)" where
  "process_rupture gsims total_sites imts str truncation_level cav_min curves pair =
     (case pair of (rupture, r_sites) \<Rightarrow>
     (case get_probability_one_or_more_occurrences rupture of
        Inl e \<Rightarrow> Inl e
      | Inr prob \<Rightarrow>
     (case getitem gsims (\<lambda>trt. trt) (tectonic_region_type rupture) of
        Inl e \<Rightarrow> Inl e
      | Inr g \<Rightarrow>
     (case make_contexts g r_sites rupture of
        Inl e \<Rightarrow> Inl e
      | Inr ctx \<Rightarrow>
          imt_loop g ctx prob r_sites total_sites imts str truncation_level cav_min
            curves (dict_keys imts)))))"

fun rupture_loop ::
  "(string \<times> ('r rupture_scheme, 'ctx, 'imt) gsim) list \<Rightarrow> nat \<Rightarrow>
   ('imt \<times> real list) list \<Rightarrow> ('imt \<Rightarrow> string) \<Rightarrow> real \<Rightarrow> real \<Rightarrow>
   ('imt \<rightharpoonup> ndarray) \<Rightarrow> ('r rupture_scheme \<times> site_collection) gen \<Rightarrow>
   exn + ('imt \<rightharpoonup> ndarray)" where
  "rupture_loop gsims total_sites imts str truncation_level cav_min curves Stop = Inr curves"
| "rupture_loop gsims total_sites imts str truncation_level cav_min curves (Raise e) = Inl e"
| "rupture_loop gsims total_sites imts str truncation_level cav_min curves (Yield pair rest) =
     (case process_rupture gsims total_sites imts str truncation_level cav_min curves pair of
        Inl e \<Rightarrow> Inl e
      | Inr curves' \<Rightarrow>
          rupture_loop gsims total_sites imts str truncation_level cav_min curves' rest)"

text \<open>The message of the error raised by the \<^verbatim>\<open>except\<close> clause.\<close>

definition error_msg :: "string \<Rightarrow> string \<Rightarrow> string" where
  "error_msg sid m = ''An error occurred with source id='' @ sid @ ''. Error: '' @ m"

text \<open>
  The body of the loop over the filtered (source, sites) pairs: the \<^verbatim>\<open>try\<close> block and
  its \<^verbatim>\<open>except Exception\<close> clause.
\<close>

definition process_source ::
  "'tom \<Rightarrow> (string \<times> ('r rupture_scheme, 'ctx, 'imt) gsim) list \<Rightarrow> nat \<Rightarrow>
   ('imt \<times> real list) list \<Rightarrow> ('imt \<Rightarrow> string) \<Rightarrow> real \<Rightarrow>
   (('r rupture_scheme \<times> site_collection) gen \<Rightarrow> ('r rupture_scheme \<times> site_collection) gen) \<Rightarrow>
   real \<Rightarrow> ('imt \<rightharpoonup> ndarray) \<Rightarrow> ('tom, 'r rupture_scheme) source \<times> site_collection \<Rightarrow>
   exn + ('imt \<rightharpoonup> ndarray)" where
  "process_source tom gsims total_sites imts str truncation_level rupture_site_filter cav_min
       curves pair =
     (case pair of (source, s_sites) \<Rightarrow>
       (let ruptures_sites = gen_map (\<lambda>rupture. (rupture, s_sites)) (iter_ruptures source tom)
        in case rupture_loop gsims total_sites imts str truncation_level cav_min curves
                  (rupture_site_filter ruptures_sites) of
             Inl err \<Rightarrow> Inl (RuntimeError (error_msg (source_id source) (message err)))
           | Inr curves' \<Rightarrow> Inr curves'))"

fun source_loop ::
  "'tom \<Rightarrow> (string \<times> ('r rupture_scheme, 'ctx, 'imt) gsim) list \<Rightarrow> nat \<Rightarrow>
   ('imt \<times> real list) list \<Rightarrow> ('imt \<Rightarrow> string) \<Rightarrow> real \<Rightarrow>
   (('r rupture_scheme \<times> site_collection) gen \<Rightarrow> ('r rupture_scheme \<times> site_collection) gen) \<Rightarrow>
   real \<Rightarrow> ('imt \<rightharpoonup> ndarray) \<Rightarrow> (('tom, 'r rupture_scheme) source \<times> site_collection) gen \<Rightarrow>
   exn + ('imt \<rightharpoonup> ndarray)" where
  "source_loop tom gsims total_sites imts str truncation_level rupture_site_filter cav_min
       curves Stop = Inr curves"
| "source_loop tom gsims total_sites imts str truncation_level rupture_site_filter cav_min
       curves (Raise e) = Inl e"
| "source_loop tom gsims total_sites imts str truncation_level rupture_site_filter cav_min
       curves (Yield pair rest) =
     (case process_source tom gsims total_sites imts str truncation_level rupture_site_filter
             cav_min curves pair of
        Inl e \<Rightarrow> Inl e
      | Inr curves' \<Rightarrow>
          source_loop tom gsims total_sites imts str truncation_level rupture_site_filter
            cav_min curves' rest)"

text \<open>The last loop of the calculator: \<^verbatim>\<open>curves[imt] = 1 - curves[imt]\<close> for every key.\<close>

fun complement_loop :: "('imt \<rightharpoonup> ndarray) \<Rightarrow> 'imt list \<Rightarrow> ('imt \<rightharpoonup> ndarray)" where
  "complement_loop curves [] = curves"
| "complement_loop curves (imt # rest) =
     complement_loop
       (case curves imt of None \<Rightarrow> curves | Some curve \<Rightarrow> curves(imt \<mapsto> scalar_minus 1 curve))
       rest"

text \<open>
  The first statement of the calculator builds the dict of the curves, all ones, and
  the rest follows. \<open>PoissonTOM\<close> is the constructor of the temporal occurrence model,
  whose class is not among the sources; \<open>str\<close> is Python's \<^verbatim>\<open>str\<close> on the intensity
  measure types. The other parameters are those of the Python function, in its order.
\<close>

definition initial_curves :: "site_collection \<Rightarrow> ('imt \<times> real list) list \<Rightarrow> ('imt \<rightharpoonup> ndarray)" where
  "initial_curves sites imts =
     map_of (map (\<lambda>(imt, imls). (imt, numpy_ones (length sites) (length imls))) imts)"

definition hazard_curves_poissonian ::
  "(real \<Rightarrow> exn + 'tom) \<Rightarrow> ('imt \<Rightarrow> string) \<Rightarrow>
   ('tom, 'r rupture_scheme) source list \<Rightarrow> site_collection \<Rightarrow> ('imt \<times> real list) list \<Rightarrow>
   real \<Rightarrow> (string \<times> ('r rupture_scheme, 'ctx, 'imt) gsim) list \<Rightarrow> real \<Rightarrow>
   ((('tom, 'r rupture_scheme) source \<times> site_collection) gen \<Rightarrow>
      (('tom, 'r rupture_scheme) source \<times> site_collection) gen) \<Rightarrow>
   (('r rupture_scheme \<times> site_collection) gen \<Rightarrow> ('r rupture_scheme \<times> site_collection) gen) \<Rightarrow>
   real \<Rightarrow> exn + ('imt \<rightharpoonup> ndarray)" where
  "hazard_curves_poissonian PoissonTOM str sources sites imts time_span gsims truncation_level
       source_site_filter rupture_site_filter cav_min =
     (let curves = initial_curves sites imts
      in case PoissonTOM time_span of
           Inl e \<Rightarrow> Inl e
         | Inr tom \<Rightarrow>
             (let total_sites = length sites;
                  sources_sites = gen_of_list (map (\<lambda>source. (source, sites)) sources)
              in case source_loop tom gsims total_sites imts str truncation_level
                        rupture_site_filter cav_min curves (source_site_filter sources_sites) of
                   Inl e \<Rightarrow> Inl e
                 | Inr curves' \<Rightarrow> Inr (complement_loop curves' (dict_keys imts))))"

section \<open>Test doubles\<close>

text \<open>
  Stand-ins for the collaborators, used to run the calculator on concrete inputs: a
  temporal occurrence model that is its time span, a rupture with a fixed probability of
  occurrence, a source that yields a fixed list of ruptures, and a ground-shaking
  intensity model whose contexts are the sites themselves and which returns one fixed
  probability of exceedance for every site and level.
\<close>

definition stub_tom :: "real \<Rightarrow> exn + real" where
  "stub_tom time_span = Inr time_span"

definition stub_rupture :: "string \<Rightarrow> real \<Rightarrow> rupture" where
  "stub_rupture trt p =
     \<lparr>tectonic_region_type = trt, get_probability_one_or_more_occurrences = Inr p\<rparr>"

definition stub_source :: "string \<Rightarrow> rupture list \<Rightarrow> (real, rupture) source" where
  "stub_source sid ruptures =
     \<lparr>source_id = sid, iter_ruptures = (\<lambda>tom. gen_of_list ruptures)\<rparr>"

definition stub_gsim :: "real \<Rightarrow> (rupture, site_collection, string) gsim" where
  "stub_gsim poe =
     \<lparr>make_contexts = (\<lambda>r_sites rupture. Inr r_sites),
      get_poes_cav = (\<lambda>ctx imt imls truncation_level cav_min.
        Inr \<lparr>shape = (length ctx, length imls), item = (\<lambda>i j. poe)\<rparr>)\<rparr>"


definition raising_filter :: "exn \<Rightarrow> ('a \<times> site_collection) gen \<Rightarrow> ('a \<times> site_collection) gen" where
  "raising_filter e pairs = Raise e"

section \<open>The ground-motion model of Berge-Thierry et al. (2003)\<close>

text \<open>
  The contexts passed to the model are Python objects read by attribute name, so an
  object is the list of its attributes; a value is a float or a one-dimensional array.
  The class name that Python puts in the message of an AttributeError is not modelled.
\<close>

datatype pyval = Float real | Array "real list"

type_synonym pyobj = "(string \<times> pyval) list"

definition AttributeError :: "string \<Rightarrow> exn" where
  "AttributeError name = Exn ''AttributeError'' (''object has no attribute '' @ name)"

definition TypeError :: "string \<Rightarrow> exn" where
  "TypeError msg = Exn ''TypeError'' msg"

definition IndexError :: "string \<Rightarrow> exn" where
  "IndexError msg = Exn ''IndexError'' msg"

definition AssertionError :: exn where
  "AssertionError = Exn ''AssertionError'' []"

definition getattr :: "pyobj \<Rightarrow> string \<Rightarrow> exn + pyval" where
  "getattr obj name = (case map_of obj name of None \<Rightarrow> Inl (AttributeError name) | Some v \<Rightarrow> Inr v)"

text \<open>
  A numpy function of one argument, and an arithmetic operator on two values with
  broadcasting: a float combines with every element of an array, two arrays combine
  element by element when they have the same length or one of them has length 1.
  Logarithms are HOL's total ones; at arguments that are not positive, where numpy
  gives NaN or infinity, their values do not stand for the program's.
\<close>

fun np_map :: "(real \<Rightarrow> real) \<Rightarrow> pyval \<Rightarrow> pyval" where
  "np_map f (Float x) = Float (f x)"
| "np_map f (Array xs) = Array (map f xs)"

fun np_binop :: "(real \<Rightarrow> real \<Rightarrow> real) \<Rightarrow> pyval \<Rightarrow> pyval \<Rightarrow> exn + pyval" where
  "np_binop f (Float x) (Float y) = Inr (Float (f x y))"
| "np_binop f (Float x) (Array ys) = Inr (Array (map (f x) ys))"
| "np_binop f (Array xs) (Float y) = Inr (Array (map (\<lambda>x. f x y) xs))"
| "np_binop f (Array xs) (Array ys) =
     (if length xs = length ys then Inr (Array (map2 f xs ys))
      else if length xs = 1 then Inr (Array (map (f (hd xs)) ys))
      else if length ys = 1 then Inr (Array (map (\<lambda>x. f x (hd ys)) xs))
      else Inl (ValueError ''operands could not be broadcast together''))"

text \<open>
  Intensity measure types are tuples: \<^verbatim>\<open>SA(period, damping)\<close> has two items, the others
  none. \<open>imt_item1\<close> is \<^verbatim>\<open>imt[1]\<close>.
\<close>

datatype intensity_measure_type = PGA | PGV | SA (period: real) (damping: real)

fun imt_item1 :: "intensity_measure_type \<Rightarrow> exn + real" where
  "imt_item1 (SA p d) = Inr d"
| "imt_item1 PGA = Inl (IndexError ''tuple index out of range'')"
| "imt_item1 PGV = Inl (IndexError ''tuple index out of range'')"

datatype stddev_type = TOTAL | INTER_EVENT | INTRA_EVENT

text \<open>
  A row of a coefficient table, with the columns of the tables of the class. The class of
  the tables is not among the sources, so the model object holds its two tables as the
  lookups \<^verbatim>\<open>table[imt]\<close> they provide; \<open>str_float\<close> is Python's \<^verbatim>\<open>str\<close> on floats.
\<close>

record coeffs =
  C_a :: real
  C_b :: real
  C_c1 :: real
  C_c2 :: real
  C_std :: real

record berge_thierry_2003 =
  COEFFS05 :: "intensity_measure_type \<Rightarrow> exn + coeffs"
  COEFFS20 :: "intensity_measure_type \<Rightarrow> exn + coeffs"
  str_float :: "real \<Rightarrow> string"

definition DEFINED_FOR_STANDARD_DEVIATION_TYPES :: "stddev_type set" where
  "DEFINED_FOR_STANDARD_DEVIATION_TYPES = {TOTAL}"

text \<open>
  The loop of \<^verbatim>\<open>_get_stddevs\<close> with its list under construction, and the method: one row
  of \<open>num_sites\<close> values per requested type.
\<close>

fun get_stddevs_loop :: "coeffs \<Rightarrow> nat \<Rightarrow> real list list \<Rightarrow> stddev_type list \<Rightarrow> exn + real list list" where
  "get_stddevs_loop C num_sites stddevs [] = Inr stddevs"
| "get_stddevs_loop C num_sites stddevs (stddev_type # rest) =
     (if stddev_type \<notin> DEFINED_FOR_STANDARD_DEVIATION_TYPES then Inl AssertionError
      else get_stddevs_loop C num_sites
             (if stddev_type = TOTAL
              then stddevs @ [map (\<lambda>z. C_std C + z) (replicate num_sites 0)]
              else stddevs)
             rest)"

definition get_stddevs :: "coeffs \<Rightarrow> stddev_type list \<Rightarrow> nat \<Rightarrow> exn + real list list" where
  "get_stddevs C stddev_types num_sites =
     (case get_stddevs_loop C num_sites [] stddev_types of
        Inl e \<Rightarrow> Inl e
      | Inr stddevs \<Rightarrow> Inr (map (map (\<lambda>x. 10 powr x)) stddevs))"

definition compute_magnitude_scaling :: "pyobj \<Rightarrow> coeffs \<Rightarrow> exn + pyval" where
  "compute_magnitude_scaling rup C =
     (case getattr rup ''mag'' of
        Inl e \<Rightarrow> Inl e
      | Inr mag \<Rightarrow> Inr (np_map (\<lambda>x. C_a C * x) mag))"

definition compute_distance_scaling :: "pyobj \<Rightarrow> coeffs \<Rightarrow> exn + pyval" where
  "compute_distance_scaling dists C =
     (case getattr dists ''rhypo'' of
        Inl e \<Rightarrow> Inl e
      | Inr rhypo \<Rightarrow> np_binop (\<lambda>x y. x - y) (np_map (\<lambda>x. C_b C * x) rhypo) (np_map (log 10) rhypo))"

text \<open>
  \<open>choice_dict\<close> has the two keys True and False, so it is a function on the truth
  values. Iterating over a float raises TypeError.
\<close>

definition get_site_amplification :: "pyobj \<Rightarrow> coeffs \<Rightarrow> exn + pyval" where
  "get_site_amplification sites C =
     (let choice_dict = (\<lambda>key. if key then C_c1 C else C_c2 C) in
      case getattr sites ''vs30'' of
        Inl e \<Rightarrow> Inl e
      | Inr (Float x) \<Rightarrow> Inl (TypeError ''object is not iterable'')
      | Inr (Array vs) \<Rightarrow> Inr (Array (map (\<lambda>vs30. choice_dict (vs30 \<ge> 800.0)) vs)))"

text \<open>\<^verbatim>\<open>len(sites.vs30)\<close>.\<close>

definition len_vs30 :: "pyobj \<Rightarrow> exn + nat" where
  "len_vs30 sites =
     (case getattr sites ''vs30'' of
        Inl e \<Rightarrow> Inl e
      | Inr (Float x) \<Rightarrow> Inl (TypeError ''object has no len()'')
      | Inr (Array vs) \<Rightarrow> Inr (length vs))"

text \<open>The lookup of the coefficients: \<^verbatim>\<open>{5: COEFFS05, 20: COEFFS20}[imt[1]][imt]\<close>.\<close>

definition lookup_coeffs :: "berge_thierry_2003 \<Rightarrow> intensity_measure_type \<Rightarrow> exn + coeffs" where
  "lookup_coeffs self imt =
     (case imt_item1 imt of
        Inl e \<Rightarrow> Inl e
      | Inr d \<Rightarrow>
          if d = 5 then COEFFS05 self imt
          else if d = 20 then COEFFS20 self imt
          else Inl (KeyError (str_float self d)))"

definition get_mean_and_stddevs ::
  "berge_thierry_2003 \<Rightarrow> pyobj \<Rightarrow> pyobj \<Rightarrow> pyobj \<Rightarrow> intensity_measure_type \<Rightarrow>
   stddev_type list \<Rightarrow> exn + (pyval \<times> real list list)" where
  "get_mean_and_stddevs self sites rup dists imt stddev_types =
     (case lookup_coeffs self imt of
        Inl e \<Rightarrow> Inl e
      | Inr C \<Rightarrow>
     (case compute_magnitude_scaling rup C of
        Inl e \<Rightarrow> Inl e
      | Inr mag_term \<Rightarrow>
     (case compute_distance_scaling rup C of
        Inl e \<Rightarrow> Inl e
      | Inr dist_term \<Rightarrow>
     (case np_binop (\<lambda>x y. x + y) mag_term dist_term of
        Inl e \<Rightarrow> Inl e
      | Inr partial_sum \<Rightarrow>
     (case get_site_amplification sites C of
        Inl e \<Rightarrow> Inl e
      | Inr site_term \<Rightarrow>
     (case np_binop (\<lambda>x y. x + y) partial_sum site_term of
        Inl e \<Rightarrow> Inl e
      | Inr log10_mean \<Rightarrow>
     (let mean = np_map (\<lambda>x. 10 powr x / 981.0) log10_mean;
          mean = np_map ln mean
      in case len_vs30 sites of
           Inl e \<Rightarrow> Inl e
         | Inr num_sites \<Rightarrow>
        (case get_stddevs C stddev_types num_sites of
           Inl e \<Rightarrow> Inl e
         | Inr stddevs \<Rightarrow> Inr (mean, map (map ln) stddevs)))))))))"

section \<open>Predicates on probabilities and curves\<close>

text \<open>
  The values of an array (within its shape) are probabilities. A ground-shaking
  intensity model keeps its contract when, for contexts it made for a site collection,
  the probabilities of exceedance it returns have one row per site and one column per
  level and lie between 0 and 1. A rupture has a probability of occurrence between 0 and
  1. The curves are well-formed when every intensity measure type of \<open>imts\<close> has its
  array, of one row per site and one column per level, with values between 0 and 1.
  \<open>curves_le\<close> compares two dicts of curves value by value.
\<close>

definition in_unit :: "ndarray \<Rightarrow> bool" where
  "in_unit arr \<longleftrightarrow>
     (\<forall>i j. i < fst (shape arr) \<longrightarrow> j < snd (shape arr) \<longrightarrow> 0 \<le> item arr i j \<and> item arr i j \<le> 1)"

definition gsim_contract :: "('rup, 'ctx, 'imt) gsim \<Rightarrow> bool" where
  "gsim_contract g \<longleftrightarrow>
     (\<forall>r_sites rupture ctx imt imls truncation_level cav_min poes.
        make_contexts g r_sites rupture = Inr ctx \<longrightarrow>
        get_poes_cav g ctx imt imls truncation_level cav_min = Inr poes \<longrightarrow>
        shape poes = (length r_sites, length imls) \<and> in_unit poes)"

definition prob_ok :: "'r rupture_scheme \<Rightarrow> bool" where
  "prob_ok rupture \<longleftrightarrow>
     (\<forall>p. get_probability_one_or_more_occurrences rupture = Inr p \<longrightarrow> 0 \<le> p \<and> p \<le> 1)"

definition curves_ok :: "nat \<Rightarrow> ('imt \<times> real list) list \<Rightarrow> ('imt \<rightharpoonup> ndarray) \<Rightarrow> bool" where
  "curves_ok total_sites imts curves \<longleftrightarrow>
     (\<forall>imt imls. map_of imts imt = Some imls \<longrightarrow>
        (\<exists>arr. curves imt = Some arr \<and> shape arr = (total_sites, length imls) \<and> in_unit arr))"

definition curves_le :: "('imt \<rightharpoonup> ndarray) \<Rightarrow> ('imt \<rightharpoonup> ndarray) \<Rightarrow> bool" where
  "curves_le curves' curves \<longleftrightarrow>
     (\<forall>imt arr. curves imt = Some arr \<longrightarrow>
        (\<exists>arr'. curves' imt = Some arr' \<and> shape arr' = shape arr \<and>
           (\<forall>i j. i < fst (shape arr) \<longrightarrow> j < snd (shape arr) \<longrightarrow> item arr' i j \<le> item arr i j)))"

section \<open>Scaling of curves\<close>

text \<open>
  These notions serve the proof that the order of the sources does not matter.
  \<open>scale\<close> multiplies every value of every curve by a factor given for its intensity
  measure type and position; \<open>items_of\<close> reads the values of curves as such factors;
  \<open>same_shapes\<close> says that two dicts of curves have the same keys and shapes.
  \<open>source_step\<close> is what the calculator does with one source when the source-site filter
  works pair by pair, and \<open>run_steps\<close> runs a step over a list, stopping at the first
  error.
\<close>

definition scale :: "('imt \<Rightarrow> nat \<Rightarrow> nat \<Rightarrow> real) \<Rightarrow> ('imt \<rightharpoonup> ndarray) \<Rightarrow> ('imt \<rightharpoonup> ndarray)" where
  "scale S curves =
     (\<lambda>imt. map_option (\<lambda>arr. \<lparr>shape = shape arr, item = (\<lambda>i j. S imt i j * item arr i j)\<rparr>)
               (curves imt))"

definition items_of :: "('imt \<rightharpoonup> ndarray) \<Rightarrow> 'imt \<Rightarrow> nat \<Rightarrow> nat \<Rightarrow> real" where
  "items_of curves = (\<lambda>imt i j. case curves imt of None \<Rightarrow> 1 | Some arr \<Rightarrow> item arr i j)"

definition same_shapes :: "('imt \<rightharpoonup> ndarray) \<Rightarrow> ('imt \<rightharpoonup> ndarray) \<Rightarrow> bool" where
  "same_shapes curves curves' \<longleftrightarrow>
     (\<forall>imt. map_option shape (curves' imt) = map_option shape (curves imt))"

definition source_step ::
  "(('tom, 'r rupture_scheme) source \<Rightarrow> site_collection \<Rightarrow> exn + site_collection option) \<Rightarrow>
   'tom \<Rightarrow> (string \<times> ('r rupture_scheme, 'ctx, 'imt) gsim) list \<Rightarrow> nat \<Rightarrow>
   ('imt \<times> real list) list \<Rightarrow> ('imt \<Rightarrow> string) \<Rightarrow> real \<Rightarrow>
   (('r rupture_scheme \<times> site_collection) gen \<Rightarrow> ('r rupture_scheme \<times> site_collection) gen) \<Rightarrow>
   real \<Rightarrow> site_collection \<Rightarrow> ('imt \<rightharpoonup> ndarray) \<Rightarrow> ('tom, 'r rupture_scheme) source \<Rightarrow>
   exn + ('imt \<rightharpoonup> ndarray)" where
  "source_step f tom gsims total_sites imts str truncation_level rupture_site_filter cav_min
       sites curves source =
     (case f source sites of
        Inl e \<Rightarrow> Inl e
      | Inr None \<Rightarrow> Inr curves
      | Inr (Some s_sites) \<Rightarrow>
          process_source tom gsims total_sites imts str truncation_level rupture_site_filter
            cav_min curves (source, s_sites))"

fun run_steps :: "('c \<Rightarrow> 'x \<Rightarrow> exn + 'c) \<Rightarrow> 'c \<Rightarrow> 'x list \<Rightarrow> exn + 'c" where
  "run_steps step curves [] = Inr curves"
| "run_steps step curves (x # xs) =
     (case step curves x of Inl e \<Rightarrow> Inl e | Inr curves' \<Rightarrow> run_steps step curves' xs)"

section \<open>Properties of the final loop\<close>

lemma complement_loop_eq:
  "distinct ks \<Longrightarrow>
   complement_loop curves ks =
     (\<lambda>k. if k \<in> set ks then map_option (scalar_minus 1) (curves k) else curves k)"
proof (induction ks arbitrary: curves)
  case Nil
  then show ?case by simp
next
  case (Cons k ks)
  then show ?case
    by (cases "curves k") (auto simp: fun_eq_iff)
qed

lemma complement_loop_dict:
  "complement_loop (map_of (map (\<lambda>(imt, v). (imt, f v)) imts)) (dict_keys imts) =
   map_of (map (\<lambda>(imt, v). (imt, scalar_minus 1 (f v))) imts)"
proof -
  have "map_of (map (\<lambda>(imt, v). (imt, scalar_minus 1 (f v))) imts) k =
        (if k \<in> set (dict_keys imts)
         then map_option (scalar_minus 1) (map_of (map (\<lambda>(imt, v). (imt, f v)) imts) k)
         else map_of (map (\<lambda>(imt, v). (imt, f v)) imts) k)" for k
    by (induction imts) (auto simp: dict_keys_def)
  then show ?thesis
    by (simp add: complement_loop_eq dict_keys_def fun_eq_iff)
qed

lemma scalar_minus_ones:
  "scalar_minus 1 (numpy_ones n m) = \<lparr>shape = (n, m), item = (\<lambda>i j. 0)\<rparr>"
  by (simp add: scalar_minus_def numpy_ones_def)

section \<open>Empty input\<close>

text \<open>
  Claim C3. With no sources, the calculator returns, for each intensity measure type of
  \<open>imts\<close>, the array of shape (number of sites, number of levels) whose every value is
  zero. The two premises say that the call gets as far as its loops: the temporal
  occurrence model is constructed, and the source-site filter yields nothing from an
  empty stream of pairs (the no-op filter and every filter that works pair by pair do).
\<close>

theorem empty_sources_zero:
  assumes "PoissonTOM time_span = Inr tom"
    and "source_site_filter Stop = Stop"
  shows "hazard_curves_poissonian PoissonTOM str [] sites imts time_span gsims
           truncation_level source_site_filter rupture_site_filter cav_min =
         Inr (map_of (map (\<lambda>(imt, imls).
                (imt, \<lparr>shape = (length sites, length imls), item = (\<lambda>i j. 0)\<rparr>)) imts))"
  using assms
  by (simp add: hazard_curves_poissonian_def initial_curves_def complement_loop_dict
      scalar_minus_ones)

theorem empty_sources_zero_witness:
  "hazard_curves_poissonian (\<lambda>t. Inr t) (\<lambda>imt. imt)
     ([] :: (real, rupture) source list) [0, 1] [(''PGA'', [0.1, 0.2, 0.3])] 50
     ([] :: (string \<times> (rupture, unit, string) gsim) list) 3
     source_site_noop_filter rupture_site_noop_filter 0 =
   Inr (map_of [(''PGA'', \<lparr>shape = (2, 3), item = (\<lambda>i j. 0)\<rparr>)])"
  using empty_sources_zero [of "\<lambda>t. Inr t" 50 50 source_site_noop_filter "\<lambda>imt. imt"
      "[0, 1]" "[(''PGA'', [0.1, 0.2, 0.3])]" "[]" 3 rupture_site_noop_filter 0]
  by (simp add: source_site_noop_filter_def numeral_2_eq_2 numeral_3_eq_3)

section \<open>Properties of the array operations\<close>

lemma scatter_absent:
  "i \<notin> set xs \<Longrightarrow> scatter rows n xs f i = f i"
  by (induction xs arbitrary: n f) auto

lemma scatter_present:
  "distinct xs \<Longrightarrow> k < length xs \<Longrightarrow> scatter rows n xs f (xs ! k) = rows (n + k)"
proof (induction xs arbitrary: n f k)
  case Nil
  then show ?case by simp
next
  case (Cons x xs)
  show ?case
  proof (cases k)
    case 0
    with Cons.prems show ?thesis by (simp add: scatter_absent)
  next
    case (Suc k')
    with Cons.prems Cons.IH [of k' "Suc n"] show ?thesis by simp
  qed
qed

lemma scatter_cases:
  "scatter rows n xs f i = f i \<or> (\<exists>k < length xs. scatter rows n xs f i = rows (n + k))"
proof (induction xs arbitrary: n f)
  case Nil
  then show ?case by simp
next
  case (Cons x xs)
  from Cons.IH [of "Suc n" "f(x := rows n)"]
  show ?case
  proof
    assume h: "scatter rows (Suc n) xs (f(x := rows n)) i = (f(x := rows n)) i"
    show ?thesis
    proof (cases "i = x")
      case True
      with h have "scatter rows n (x # xs) f i = rows (n + 0)" by simp
      then show ?thesis by (intro disjI2 exI [of _ 0]) simp
    next
      case False
      with h show ?thesis by simp
    qed
  next
    assume "\<exists>k<length xs. scatter rows (Suc n) xs (f(x := rows n)) i = rows (Suc n + k)"
    then obtain k where "k < length xs"
      "scatter rows (Suc n) xs (f(x := rows n)) i = rows (Suc n + k)" by blast
    then show ?thesis by (intro disjI2 exI [of _ "Suc k"]) simp
  qed
qed

lemma shape_expand: "shape (expand r_sites data total_sites p) = (total_sites, snd (shape data))"
  by (simp add: expand_def)

lemma expand_item_absent: "i \<notin> set r_sites \<Longrightarrow> item (expand r_sites data total_sites p) i j = p"
  by (simp add: expand_def scatter_absent)

lemma expand_item_present:
  "distinct r_sites \<Longrightarrow> k < length r_sites \<Longrightarrow>
   item (expand r_sites data total_sites p) (r_sites ! k) j = item data k j"
  by (simp add: expand_def scatter_present)

lemma expand_item_cases:
  "item (expand r_sites data total_sites p) i j = p \<or>
   (\<exists>k < length r_sites. item (expand r_sites data total_sites p) i j = item data k j)"
  using scatter_cases [of "item data" 0 r_sites "\<lambda>i j. p" i]
  by (auto simp: expand_def)

lemma imul_same_shape:
  "shape b = shape a \<Longrightarrow>
   imul a b = Inr \<lparr>shape = shape a, item = (\<lambda>i j. item a i j * item b i j)\<rparr>"
  by (cases "shape a") (simp add: imul_def)

lemma imul_shape: "imul a b = Inr c \<Longrightarrow> shape c = shape a"
  by (auto simp: imul_def Let_def split: prod.splits if_splits)

lemma update_curve_other:
  "update_curve g ctx prob r_sites total_sites imts str t c curves imt = Inr curves' \<Longrightarrow>
   k \<noteq> imt \<Longrightarrow> curves' k = curves k"
  by (auto simp: update_curve_def split: sum.splits option.splits)

lemma imt_loop_other:
  "imt_loop g ctx prob r_sites total_sites imts str t c curves ks = Inr curves' \<Longrightarrow>
   imt \<notin> set ks \<Longrightarrow> curves' imt = curves imt"
proof (induction ks arbitrary: curves)
  case Nil
  then show ?case by simp
next
  case (Cons k ks)
  then show ?case
    by (auto split: sum.splits dest: update_curve_other)
qed

lemma imt_loop_key:
  "imt_loop g ctx prob r_sites total_sites imts str t c curves ks = Inr curves' \<Longrightarrow>
   distinct ks \<Longrightarrow> imt \<in> set ks \<Longrightarrow>
   \<exists>curves1 curves2.
     update_curve g ctx prob r_sites total_sites imts str t c curves1 imt = Inr curves2 \<and>
     curves1 imt = curves imt \<and> curves' imt = curves2 imt"
proof (induction ks arbitrary: curves)
  case Nil
  then show ?case by simp
next
  case (Cons k ks)
  from Cons.prems(1) obtain cs where
    u: "update_curve g ctx prob r_sites total_sites imts str t c curves k = Inr cs" and
    l: "imt_loop g ctx prob r_sites total_sites imts str t c cs ks = Inr curves'"
    by (auto split: sum.splits)
  show ?case
  proof (cases "imt = k")
    case True
    with Cons.prems(2) have "imt \<notin> set ks" by simp
    with l have "curves' imt = cs imt" by (rule imt_loop_other)
    with u True show ?thesis by blast
  next
    case False
    with Cons.prems have "imt \<in> set ks" "distinct ks" by simp_all
    from Cons.IH [OF l this(2) this(1)] obtain curves1 curves2 where
      "update_curve g ctx prob r_sites total_sites imts str t c curves1 imt = Inr curves2"
      "curves1 imt = cs imt" "curves' imt = curves2 imt" by blast
    moreover from u False have "cs imt = curves imt" by (auto dest: update_curve_other)
    ultimately show ?thesis by auto
  qed
qed

section \<open>The fold step\<close>

text \<open>
  One run of the body of the loop over the filtered (rupture, sites) pairs, for one
  intensity measure type: with the values the body computed and arrays of the promised
  shapes, the new curve is the old one multiplied element by element by
  \<open>(1 - prob) ** poes\<close> expanded to all sites with placeholder 1.
\<close>

lemma fold_step:
  assumes step: "process_rupture gsims total_sites imts str t c curves (rupture, r_sites) = Inr curves'"
    and prob: "get_probability_one_or_more_occurrences rupture = Inr prob"
    and g: "map_of gsims (tectonic_region_type rupture) = Some g"
    and ctx: "make_contexts g r_sites rupture = Inr ctx"
    and imls: "map_of imts imt = Some imls"
    and poes: "get_poes_cav g ctx imt imls t c = Inr poes"
    and poes_shape: "shape poes = (length r_sites, length imls)"
    and curve: "curves imt = Some curve"
    and curve_shape: "shape curve = (total_sites, length imls)"
  shows "\<exists>curve'. curves' imt = Some curve' \<and> shape curve' = (total_sites, length imls) \<and>
     (\<forall>i j. item curve' i j =
        item curve i j * item (expand r_sites (scalar_power (1 - prob) poes) total_sites 1) i j) \<and>
     (\<forall>i j. i \<notin> set r_sites \<longrightarrow> item curve' i j = item curve i j) \<and>
     (distinct r_sites \<longrightarrow>
        (\<forall>k j. k < length r_sites \<longrightarrow>
           item curve' (r_sites ! k) j =
             item curve (r_sites ! k) j * float_power (1 - prob) (item poes k j)))"
proof -
  let ?x = "expand r_sites (scalar_power (1 - prob) poes) total_sites 1"
  from step prob g ctx
  have loop: "imt_loop g ctx prob r_sites total_sites imts str t c curves (dict_keys imts) = Inr curves'"
    by (simp add: process_rupture_def getitem_def)
  from imls have "imt \<in> set (dict_keys imts)"
    by (auto simp: dict_keys_def dest: map_of_SomeD intro: rev_image_eqI)
  moreover have "distinct (dict_keys imts)" by (simp add: dict_keys_def)
  ultimately obtain curves1 curves2 where
    u: "update_curve g ctx prob r_sites total_sites imts str t c curves1 imt = Inr curves2"
    and c1: "curves1 imt = curves imt" and c2: "curves' imt = curves2 imt"
    using imt_loop_key [OF loop] by blast
  from u imls poes c1 curve obtain curve' where
    m: "imul curve ?x = Inr curve'" and r: "curves2 imt = Some curve'"
    by (auto simp: update_curve_def getitem_def split: sum.splits)
  have "shape ?x = shape curve"
    by (simp add: shape_expand scalar_power_def poes_shape curve_shape)
  with m have eq: "curve' = \<lparr>shape = shape curve, item = (\<lambda>i j. item curve i j * item ?x i j)\<rparr>"
    by (simp add: imul_same_shape)
  have "shape curve' = (total_sites, length imls)" by (simp add: eq curve_shape)
  moreover have "item curve' i j = item curve i j * item ?x i j" for i j by (simp add: eq)
  moreover have "item curve' i j = item curve i j" if "i \<notin> set r_sites" for i j
    using that by (simp add: eq expand_item_absent)
  moreover have "item curve' (r_sites ! k) j =
      item curve (r_sites ! k) j * float_power (1 - prob) (item poes k j)"
    if "distinct r_sites" "k < length r_sites" for k j
    using that by (simp add: eq expand_item_present scalar_power_def)
  ultimately show ?thesis using r c2 by auto
qed

section \<open>A single rupture\<close>

lemma sqrt_lower: "94868/100000 < sqrt (9/10::real)"
  by (rule real_less_rsqrt) (simp add: power2_eq_square)

lemma sqrt_upper: "sqrt (9/10::real) < 94869/100000"
  by (rule real_less_lsqrt) (simp_all add: power2_eq_square)

text \<open>
  Claim C2. One source with a single rupture of probability of occurrence 0.1, one site,
  one intensity measure type with one level, and a model that returns the probability of
  exceedance 0.5: the calculator returns one curve of shape (1, 1) whose value is
  \<open>1 - (1 - 0.1) ** 0.5\<close>, which is 0.05132 to five decimal places.
\<close>

theorem single_rupture_scenario:
  "\<exists>curve.
     hazard_curves_poissonian stub_tom (\<lambda>imt. imt) [stub_source sid [stub_rupture trt (1/10)]]
       [0] [(imt, [iml])] time_span [(trt, stub_gsim (1/2))] truncation_level
       source_site_noop_filter rupture_site_noop_filter cav_min = Inr [imt \<mapsto> curve] \<and>
     shape curve = (1, 1) \<and>
     item curve 0 0 = 1 - float_power (1 - 1/10) (1/2) \<and>
     \<bar>item curve 0 0 - 0.05132\<bar> < 0.00001"
proof -
  let ?curve = "\<lparr>shape = (1, 1), item = (\<lambda>i j. 1 - (if i = 0 then (9/10) powr (1/2) else 1))\<rparr>"
  have run: "hazard_curves_poissonian stub_tom (\<lambda>imt. imt) [stub_source sid [stub_rupture trt (1/10)]]
       [0] [(imt, [iml])] time_span [(trt, stub_gsim (1/2))] truncation_level
       source_site_noop_filter rupture_site_noop_filter cav_min = Inr [imt \<mapsto> ?curve]"
    by (simp add: hazard_curves_poissonian_def initial_curves_def stub_tom_def stub_source_def
     stub_rupture_def stub_gsim_def source_site_noop_filter_def rupture_site_noop_filter_def
     process_source_def process_rupture_def getitem_def dict_keys_def update_curve_def
     numpy_ones_def expand_def scalar_power_def imul_def scalar_minus_def float_power_def
     fun_eq_iff)
  have "\<bar>1 - sqrt (9/10) - 0.05132\<bar> < (0.00001 :: real)"
    using sqrt_lower sqrt_upper by (simp add: abs_less_iff)
  then have "shape ?curve = (1, 1) \<and> item ?curve 0 0 = 1 - float_power (1 - 1/10) (1/2) \<and>
     \<bar>item ?curve 0 0 - 0.05132\<bar> < 0.00001"
    by (simp add: float_power_def powr_half_sqrt)
  with run show ?thesis by blast
qed

section \<open>Errors\<close>

lemma rupture_loop_prepend:
  "rupture_loop gsims total_sites imts str t c curves (gen_prepend before g) =
     (case rupture_loop gsims total_sites imts str t c curves (gen_of_list before) of
        Inl e \<Rightarrow> Inl e
      | Inr curves' \<Rightarrow> rupture_loop gsims total_sites imts str t c curves' g)"
  by (induction before arbitrary: curves) (auto split: sum.splits)

lemma source_loop_prepend:
  "source_loop tom gsims total_sites imts str t rsf c curves (gen_prepend before g) =
     (case source_loop tom gsims total_sites imts str t rsf c curves (gen_of_list before) of
        Inl e \<Rightarrow> Inl e
      | Inr curves' \<Rightarrow> source_loop tom gsims total_sites imts str t rsf c curves' g)"
  by (induction before arbitrary: curves) (auto split: sum.splits)

lemma process_rupture_raises:
  "process_rupture gsims total_sites imts str t c curves (rupture, r_sites) = Inl e \<longleftrightarrow>
     get_probability_one_or_more_occurrences rupture = Inl e \<or>
     (\<exists>prob. get_probability_one_or_more_occurrences rupture = Inr prob \<and>
        (map_of gsims (tectonic_region_type rupture) = None \<and>
           e = KeyError (tectonic_region_type rupture) \<or>
         (\<exists>g. map_of gsims (tectonic_region_type rupture) = Some g \<and>
            (make_contexts g r_sites rupture = Inl e \<or>
             (\<exists>ctx. make_contexts g r_sites rupture = Inr ctx \<and>
                imt_loop g ctx prob r_sites total_sites imts str t c curves (dict_keys imts) =
                  Inl e)))))"
  by (auto simp: process_rupture_def getitem_def split: sum.splits option.splits)

lemma process_rupture_no_gsim:
  "map_of gsims (tectonic_region_type rupture) = None \<Longrightarrow>
   process_rupture gsims total_sites imts str t c curves (rupture, r_sites) \<noteq> Inr curves'"
  by (auto simp: process_rupture_def getitem_def split: sum.splits)

lemma rupture_loop_all:
  "rupture_loop gsims total_sites imts str t c curves g = Inr curves' \<Longrightarrow>
   pair \<in> set_gen g \<Longrightarrow>
   \<exists>c1 c2. process_rupture gsims total_sites imts str t c c1 pair = Inr c2"
proof (induction g arbitrary: curves)
  case Stop
  then show ?case by simp
next
  case (Yield x g)
  then show ?case by (auto split: sum.splits)
next
  case (Raise e)
  then show ?case by simp
qed

lemma source_loop_all:
  "source_loop tom gsims total_sites imts str t rsf c curves g = Inr curves' \<Longrightarrow>
   pair \<in> set_gen g \<Longrightarrow>
   \<exists>c1 c2. process_source tom gsims total_sites imts str t rsf c c1 pair = Inr c2"
proof (induction g arbitrary: curves)
  case Stop
  then show ?case by simp
next
  case (Yield x g)
  then show ?case by (auto split: sum.splits)
next
  case (Raise e)
  then show ?case by simp
qed

lemma process_source_Inr:
  "process_source tom gsims total_sites imts str t rsf c curves (source, s_sites) = Inr curves' \<longleftrightarrow>
   rupture_loop gsims total_sites imts str t c curves
     (rsf (gen_map (\<lambda>rupture. (rupture, s_sites)) (iter_ruptures source tom))) = Inr curves'"
  by (auto simp: process_source_def split: sum.splits)

lemma process_source_Inl:
  "rupture_loop gsims total_sites imts str t c curves
     (rsf (gen_map (\<lambda>rupture. (rupture, s_sites)) (iter_ruptures source tom))) = Inl err \<Longrightarrow>
   process_source tom gsims total_sites imts str t rsf c curves (source, s_sites) =
     Inl (RuntimeError (error_msg (source_id source) (message err)))"
  by (simp add: process_source_def)



lemma rupture_loop_no_gsim:
  assumes "(rupture, r_sites) \<in> set_gen g"
    and "map_of gsims (tectonic_region_type rupture) = None"
  shows "rupture_loop gsims total_sites imts str t c curves g \<noteq> Inr curves'"
proof
  assume "rupture_loop gsims total_sites imts str t c curves g = Inr curves'"
  from rupture_loop_all [OF this assms(1)] process_rupture_no_gsim [OF assms(2)]
  show False by blast
qed

lemma source_loop_no_gsim:
  assumes "(source, s_sites) \<in> set_gen g"
    and "(rupture, r_sites) \<in>
           set_gen (rsf (gen_map (\<lambda>rupture. (rupture, s_sites)) (iter_ruptures source tom)))"
    and "map_of gsims (tectonic_region_type rupture) = None"
  shows "source_loop tom gsims total_sites imts str t rsf c curves g \<noteq> Inr curves'"
proof
  assume "source_loop tom gsims total_sites imts str t rsf c curves g = Inr curves'"
  from source_loop_all [OF this assms(1)] obtain c1 c2 where
    "process_source tom gsims total_sites imts str t rsf c c1 (source, s_sites) = Inr c2"
    by blast
  then have "rupture_loop gsims total_sites imts str t c c1
     (rsf (gen_map (\<lambda>rupture. (rupture, s_sites)) (iter_ruptures source tom))) = Inr c2"
    by (simp add: process_source_Inr)
  with rupture_loop_no_gsim [OF assms(2) assms(3)] show False by blast
qed

lemma rupture_loop_reaches_no_gsim:
  assumes "rupture_loop gsims total_sites imts str t c curves (gen_of_list rbefore) = Inr curves2"
    and "get_probability_one_or_more_occurrences rupture = Inr prob"
    and "map_of gsims (tectonic_region_type rupture) = None"
  shows "rupture_loop gsims total_sites imts str t c curves
           (gen_prepend rbefore (Yield (rupture, r_sites) rrest)) =
         Inl (KeyError (tectonic_region_type rupture))"
  using assms by (simp add: rupture_loop_prepend process_rupture_def getitem_def)

text \<open>
  Claim C7, as the code has it. A rupture that survives both filters and whose tectonic
  region type has no entry in \<open>gsims\<close> makes the calculator raise: no curve is returned.
  When that rupture is the first point of failure (everything before it is processed
  without error and its probability of occurrence is computed), the error is the
  RuntimeError of the \<^verbatim>\<open>except\<close> clause, with the identifier of the source and the
  message of the KeyError, which is the tectonic region type.
\<close>

theorem missing_gsim_raises:
  assumes tom: "PoissonTOM time_span = Inr tom"
    and none: "map_of gsims (tectonic_region_type rupture) = None"
  shows
   "((source, s_sites) \<in> set_gen
        (source_site_filter (gen_of_list (map (\<lambda>source. (source, sites)) sources))) \<longrightarrow>
     (rupture, r_sites) \<in> set_gen
        (rupture_site_filter
           (gen_map (\<lambda>rupture. (rupture, s_sites)) (iter_ruptures source tom))) \<longrightarrow>
     (\<exists>e. hazard_curves_poissonian PoissonTOM str sources sites imts time_span gsims
             truncation_level source_site_filter rupture_site_filter cav_min = Inl e)) \<and>
    (source_site_filter (gen_of_list (map (\<lambda>source. (source, sites)) sources)) =
       gen_prepend before (Yield (source, s_sites) rest) \<longrightarrow>
     source_loop tom gsims (length sites) imts str truncation_level rupture_site_filter
       cav_min (initial_curves sites imts) (gen_of_list before) = Inr curves \<longrightarrow>
     rupture_site_filter (gen_map (\<lambda>rupture. (rupture, s_sites)) (iter_ruptures source tom)) =
       gen_prepend rbefore (Yield (rupture, r_sites) rrest) \<longrightarrow>
     rupture_loop gsims (length sites) imts str truncation_level cav_min curves
       (gen_of_list rbefore) = Inr curves2 \<longrightarrow>
     get_probability_one_or_more_occurrences rupture = Inr prob \<longrightarrow>
     hazard_curves_poissonian PoissonTOM str sources sites imts time_span gsims
       truncation_level source_site_filter rupture_site_filter cav_min =
     Inl (RuntimeError (''An error occurred with source id='' @ source_id source @
            ''. Error: '' @ tectonic_region_type rupture)))"
proof (intro conjI impI)
  assume "(source, s_sites) \<in> set_gen
        (source_site_filter (gen_of_list (map (\<lambda>source. (source, sites)) sources)))"
    and "(rupture, r_sites) \<in> set_gen
        (rupture_site_filter
           (gen_map (\<lambda>rupture. (rupture, s_sites)) (iter_ruptures source tom)))"
  from source_loop_no_gsim [where rsf = rupture_site_filter and tom = tom, OF this none]
  show "\<exists>e. hazard_curves_poissonian PoissonTOM str sources sites imts time_span gsims
             truncation_level source_site_filter rupture_site_filter cav_min = Inl e"
    using tom by (auto simp: hazard_curves_poissonian_def split: sum.splits)
next
  assume a: "source_site_filter (gen_of_list (map (\<lambda>source. (source, sites)) sources)) =
       gen_prepend before (Yield (source, s_sites) rest)"
    "source_loop tom gsims (length sites) imts str truncation_level rupture_site_filter
       cav_min (initial_curves sites imts) (gen_of_list before) = Inr curves"
    and b: "rupture_site_filter (gen_map (\<lambda>rupture. (rupture, s_sites)) (iter_ruptures source tom)) =
       gen_prepend rbefore (Yield (rupture, r_sites) rrest)"
    "rupture_loop gsims (length sites) imts str truncation_level cav_min curves
       (gen_of_list rbefore) = Inr curves2"
    "get_probability_one_or_more_occurrences rupture = Inr prob"
  from b none have "rupture_loop gsims (length sites) imts str truncation_level cav_min curves
       (rupture_site_filter (gen_map (\<lambda>rupture. (rupture, s_sites)) (iter_ruptures source tom))) =
     Inl (KeyError (tectonic_region_type rupture))"
    by (simp add: rupture_loop_reaches_no_gsim)
  with tom a show "hazard_curves_poissonian PoissonTOM str sources sites imts time_span gsims
       truncation_level source_site_filter rupture_site_filter cav_min =
     Inl (RuntimeError (''An error occurred with source id='' @ source_id source @
            ''. Error: '' @ tectonic_region_type rupture))"
    by (simp add: hazard_curves_poissonian_def source_loop_prepend process_source_Inl
        error_msg_def KeyError_def)
qed

theorem missing_gsim_raises_witness:
  "hazard_curves_poissonian stub_tom (\<lambda>imt. imt)
     [stub_source ''src-1'' [stub_rupture ''Active Shallow Crust'' (1/10)],
      stub_source ''src-2'' [stub_rupture ''Volcanic'' (1/5)]]
     [0, 1] [(''PGA'', [0.1, 0.2])] 50 [(''Active Shallow Crust'', stub_gsim (1/2))] 3
     source_site_noop_filter rupture_site_noop_filter 0 =
   Inl (RuntimeError ''An error occurred with source id=src-2. Error: Volcanic'')"
proof -
  let ?s1 = "stub_source ''src-1'' [stub_rupture ''Active Shallow Crust'' (1/10)]"
  let ?r2 = "stub_rupture ''Volcanic'' (1/5)"
  let ?s2 = "stub_source ''src-2'' [?r2]"
  let ?gsims = "[(''Active Shallow Crust'', stub_gsim (1/2))]"
  let ?imts = "[(''PGA'', [0.1, 0.2 :: real])]"
  obtain curves where before:
    "source_loop (50 :: real) ?gsims (length [0, 1 :: nat]) ?imts (\<lambda>imt. imt) 3
       rupture_site_noop_filter 0 (initial_curves [0, 1] ?imts)
       (gen_of_list [(?s1, [0, 1])]) = Inr curves"
    by (simp add: process_source_def rupture_site_noop_filter_def stub_source_def
        process_rupture_def stub_rupture_def stub_gsim_def getitem_def dict_keys_def
        update_curve_def initial_curves_def imul_def expand_def scalar_power_def numpy_ones_def)
  have tom: "stub_tom 50 = Inr 50" by (simp add: stub_tom_def)
  have none: "map_of ?gsims (tectonic_region_type ?r2) = None" by (simp add: stub_rupture_def)
  have split: "source_site_noop_filter (gen_of_list (map (\<lambda>source. (source, [0, 1])) [?s1, ?s2])) =
        gen_prepend [(?s1, [0, 1])] (Yield (?s2, [0, 1]) Stop)"
    by (simp add: source_site_noop_filter_def)
  have rsplit: "rupture_site_noop_filter
         (gen_map (\<lambda>rupture. (rupture, [0, 1])) (iter_ruptures ?s2 (50 :: real))) =
        gen_prepend [] (Yield (?r2, [0, 1]) Stop)"
    by (simp add: rupture_site_noop_filter_def stub_source_def)
  have rbefore: "rupture_loop ?gsims (length [0, 1 :: nat]) ?imts (\<lambda>imt. imt) 3 0 curves
       (gen_of_list []) = Inr curves" by simp
  have prob: "get_probability_one_or_more_occurrences ?r2 = Inr (1/5)"
    by (simp add: stub_rupture_def)
  have "hazard_curves_poissonian stub_tom (\<lambda>imt. imt) [?s1, ?s2] [0, 1] ?imts 50 ?gsims 3
          source_site_noop_filter rupture_site_noop_filter 0 =
        Inl (RuntimeError (''An error occurred with source id='' @ source_id ?s2 @
               ''. Error: '' @ tectonic_region_type ?r2))"
    using missing_gsim_raises [where PoissonTOM = stub_tom and tom = 50 and time_span = 50
          and gsims = ?gsims and rupture = ?r2
          and source_site_filter = source_site_noop_filter
          and rupture_site_filter = rupture_site_noop_filter
          and sites = "[0, 1]" and sources = "[?s1, ?s2]" and source = ?s2
          and before = "[(?s1, [0, 1])]" and s_sites = "[0, 1]" and rest = Stop
          and curves = curves and rbefore = "[]" and r_sites = "[0, 1]" and rrest = Stop
          and ?curves2.0 = curves and prob = "1/5" and imts = ?imts and str = "\<lambda>imt. imt"
          and truncation_level = 3 and cav_min = 0, OF tom none]
      split before rsplit rbefore prob
    by blast
  then show ?thesis by (simp add: stub_source_def stub_rupture_def)
qed

text \<open>
  The claim as stated fails: with one source, one rupture of type Volcanic and a
  \<open>gsims\<close> dict that has Active Shallow Crust only, the error raised is a RuntimeError,
  neither a ConfigurationError nor an UnsupportedTectonicRegionError.
\<close>

theorem missing_gsim_counterexample:
  "hazard_curves_poissonian stub_tom (\<lambda>imt. imt)
     [stub_source ''src-1'' [stub_rupture ''Volcanic'' (1/10)]]
     [0] [(''PGA'', [0.1])] 50 [(''Active Shallow Crust'', stub_gsim (1/2))] 3
     source_site_noop_filter rupture_site_noop_filter 0 =
   Inl (Exn ''RuntimeError'' ''An error occurred with source id=src-1. Error: Volcanic'') \<and>
   ''RuntimeError'' \<noteq> ''ConfigurationError'' \<and>
   ''RuntimeError'' \<noteq> ''UnsupportedTectonicRegionError''"
  by (simp add: hazard_curves_poissonian_def stub_tom_def stub_source_def stub_rupture_def
      source_site_noop_filter_def rupture_site_noop_filter_def process_source_def
      process_rupture_def getitem_def RuntimeError_def KeyError_def error_msg_def)

text \<open>
  Claim C8, as the code has it. The source-site filter is pulled outside the \<^verbatim>\<open>try\<close>
  block: an error it raises, once the pairs before it are processed, reaches the caller
  unchanged. The rupture-site filter is pulled inside the \<^verbatim>\<open>try\<close> block: an error it
  raises is caught with the others and raised again as a RuntimeError with the identifier
  of the source and the message of the error.
\<close>

theorem filter_errors:
  assumes tom: "PoissonTOM time_span = Inr tom"
  shows
   "(source_site_filter (gen_of_list (map (\<lambda>source. (source, sites)) sources)) =
       gen_prepend before (Raise e) \<longrightarrow>
     source_loop tom gsims (length sites) imts str truncation_level rupture_site_filter
       cav_min (initial_curves sites imts) (gen_of_list before) = Inr curves \<longrightarrow>
     hazard_curves_poissonian PoissonTOM str sources sites imts time_span gsims
       truncation_level source_site_filter rupture_site_filter cav_min = Inl e) \<and>
    (source_site_filter (gen_of_list (map (\<lambda>source. (source, sites)) sources)) =
       gen_prepend before (Yield (source, s_sites) rest) \<longrightarrow>
     source_loop tom gsims (length sites) imts str truncation_level rupture_site_filter
       cav_min (initial_curves sites imts) (gen_of_list before) = Inr curves \<longrightarrow>
     rupture_site_filter (gen_map (\<lambda>rupture. (rupture, s_sites)) (iter_ruptures source tom)) =
       gen_prepend rbefore (Raise e) \<longrightarrow>
     rupture_loop gsims (length sites) imts str truncation_level cav_min curves
       (gen_of_list rbefore) = Inr curves2 \<longrightarrow>
     hazard_curves_poissonian PoissonTOM str sources sites imts time_span gsims
       truncation_level source_site_filter rupture_site_filter cav_min =
     Inl (RuntimeError (''An error occurred with source id='' @ source_id source @
            ''. Error: '' @ message e)))"
  using tom
  by (auto simp: hazard_curves_poissonian_def source_loop_prepend rupture_loop_prepend
      process_source_def error_msg_def)

text \<open>
  The claim as stated fails: an error of class FilterError raised by the rupture-site
  filter reaches the caller as a RuntimeError.
\<close>

theorem filter_errors_counterexample:
  "hazard_curves_poissonian stub_tom (\<lambda>imt. imt)
     [stub_source ''src-1'' [stub_rupture ''Active Shallow Crust'' (1/10)]]
     [0] [(''PGA'', [0.1])] 50 [(''Active Shallow Crust'', stub_gsim (1/2))] 3
     source_site_noop_filter (raising_filter (Exn ''FilterError'' ''bad geometry'')) 0 =
   Inl (Exn ''RuntimeError'' ''An error occurred with source id=src-1. Error: bad geometry'') \<and>
   Exn ''RuntimeError'' ''An error occurred with source id=src-1. Error: bad geometry'' \<noteq>
   Exn ''FilterError'' ''bad geometry''"
  by (simp add: hazard_curves_poissonian_def stub_tom_def stub_source_def
      source_site_noop_filter_def raising_filter_def process_source_def
      RuntimeError_def error_msg_def)

theorem filter_errors_witness:
  "hazard_curves_poissonian stub_tom (\<lambda>imt. imt)
     [stub_source ''src-1'' [stub_rupture ''Active Shallow Crust'' (1/10)]]
     [0, 1] [(''PGA'', [0.1, 0.2])] 50 [(''Active Shallow Crust'', stub_gsim (1/2))] 3
     (raising_filter (Exn ''FilterError'' ''bad polygon'')) rupture_site_noop_filter 0 =
   Inl (Exn ''FilterError'' ''bad polygon'') \<and>
   hazard_curves_poissonian stub_tom (\<lambda>imt. imt)
     [stub_source ''src-9'' [stub_rupture ''Active Shallow Crust'' (1/10)]]
     [0, 1] [(''PGA'', [0.1, 0.2])] 50 [(''Active Shallow Crust'', stub_gsim (1/2))] 3
     source_site_noop_filter (raising_filter (Exn ''FilterError'' ''bad polygon'')) 0 =
   Inl (RuntimeError ''An error occurred with source id=src-9. Error: bad polygon'')"
proof -
  let ?s1 = "stub_source ''src-1'' [stub_rupture ''Active Shallow Crust'' (1/10)]"
  let ?s9 = "stub_source ''src-9'' [stub_rupture ''Active Shallow Crust'' (1/10)]"
  let ?gsims = "[(''Active Shallow Crust'', stub_gsim (1/2))]"
  let ?imts = "[(''PGA'', [0.1, 0.2 :: real])]"
  let ?e = "Exn ''FilterError'' ''bad polygon''"
  have tom: "stub_tom 50 = Inr 50" by (simp add: stub_tom_def)
  have "hazard_curves_poissonian stub_tom (\<lambda>imt. imt) [?s1] [0, 1] ?imts 50 ?gsims 3
          (raising_filter ?e) rupture_site_noop_filter 0 = Inl ?e"
    using filter_errors [where PoissonTOM = stub_tom and tom = 50 and time_span = 50
          and source_site_filter = "raising_filter ?e"
          and rupture_site_filter = rupture_site_noop_filter
          and sites = "[0, 1]" and sources = "[?s1]" and before = "[]" and e = ?e
          and gsims = ?gsims and imts = ?imts and str = "\<lambda>imt. imt"
          and truncation_level = 3 and cav_min = 0
          and curves = "initial_curves [0, 1] ?imts", OF tom]
    by (simp add: raising_filter_def)
  moreover
  have "hazard_curves_poissonian stub_tom (\<lambda>imt. imt) [?s9] [0, 1] ?imts 50 ?gsims 3
          source_site_noop_filter (raising_filter ?e) 0 =
        Inl (RuntimeError (''An error occurred with source id='' @ source_id ?s9 @
               ''. Error: '' @ message ?e))"
    using filter_errors [where PoissonTOM = stub_tom and tom = 50 and time_span = 50
          and source_site_filter = source_site_noop_filter
          and rupture_site_filter = "raising_filter ?e"
          and sites = "[0, 1]" and sources = "[?s9]" and before = "[]" and e = ?e
          and source = ?s9 and s_sites = "[0, 1]" and rest = Stop and rbefore = "[]"
          and gsims = ?gsims and imts = ?imts and str = "\<lambda>imt. imt"
          and truncation_level = 3 and cav_min = 0
          and curves = "initial_curves [0, 1] ?imts"
          and ?curves2.0 = "initial_curves [0, 1] ?imts", OF tom]
    by (simp add: raising_filter_def source_site_noop_filter_def)
  ultimately show ?thesis by (simp add: stub_source_def)
qed

section \<open>The model of Berge-Thierry et al.\<close>

text \<open>
  Claim C9. Two calls of \<open>get_mean_and_stddevs\<close> that differ in the distance context
  only return the same result: the method passes the rupture context to the
  distance-scaling term, which reads the attribute \<open>rhypo\<close> of what it is given. So a
  rupture context without that attribute makes the call raise the AttributeError,
  whatever the distance context holds.
\<close>

theorem dists_has_no_influence:
  "get_mean_and_stddevs self sites rup dists imt stddev_types =
     get_mean_and_stddevs self sites rup dists' imt stddev_types \<and>
   (lookup_coeffs self imt = Inr C \<longrightarrow> getattr rup ''mag'' = Inr mag \<longrightarrow>
    getattr rup ''rhypo'' = Inl e \<longrightarrow>
    get_mean_and_stddevs self sites rup dists imt stddev_types = Inl e)"
  by (simp add: get_mean_and_stddevs_def compute_magnitude_scaling_def
      compute_distance_scaling_def)

theorem dists_has_no_influence_witness:
  "get_mean_and_stddevs
     \<lparr>COEFFS05 = (\<lambda>imt. Inr \<lparr>C_a = 0.3118, C_b = -0.0009303, C_c1 = 1.537, C_c2 = 1.573,
                                 C_std = 0.2923\<rparr>),
      COEFFS20 = (\<lambda>imt. Inl (KeyError ''SA'')), str_float = (\<lambda>x. ''?'')\<rparr>
     [(''vs30'', Array [800, 300])] [(''mag'', Float 5)] [(''rhypo'', Array [10, 20])]
     (SA 0.03 5) [TOTAL] =
   Inl (AttributeError ''rhypo'')"
proof -
  let ?C = "\<lparr>C_a = 0.3118, C_b = -0.0009303, C_c1 = 1.537, C_c2 = 1.573, C_std = 0.2923\<rparr>"
  let ?self = "\<lparr>COEFFS05 = (\<lambda>imt. Inr ?C), COEFFS20 = (\<lambda>imt. Inl (KeyError ''SA'')),
                 str_float = (\<lambda>x. ''?'')\<rparr>"
  have "lookup_coeffs ?self (SA 0.03 5) = Inr ?C" by (simp add: lookup_coeffs_def)
  moreover have "getattr [(''mag'', Float 5)] ''mag'' = Inr (Float 5)" by (simp add: getattr_def)
  moreover have "getattr [(''mag'', Float 5)] ''rhypo'' = Inl (AttributeError ''rhypo'')"
    by (simp add: getattr_def)
  ultimately show ?thesis
    using dists_has_no_influence [of ?self "[(''vs30'', Array [800, 300])]" "[(''mag'', Float 5)]"
        "[(''rhypo'', Array [10, 20])]" "SA 0.03 5" "[TOTAL]" "[]" ?C "Float 5"
        "AttributeError ''rhypo''"]
    by blast
qed

text \<open>
  Claim C10. For sites whose \<open>vs30\<close> is an array, the site amplification is an array of
  the same length, in the order of the sites, whose term for a site is the coefficient
  \<open>c1\<close> when the \<open>vs30\<close> of the site is at least 800 and \<open>c2\<close> otherwise; a site
  with \<open>vs30\<close> exactly 800 gets \<open>c1\<close>.
\<close>

theorem site_amplification_terms:
  assumes "getattr sites ''vs30'' = Inr (Array vs)"
  shows "\<exists>terms. get_site_amplification sites C = Inr (Array terms) \<and>
           length terms = length vs \<and>
           (\<forall>k < length vs. terms ! k = (if vs ! k \<ge> 800 then C_c1 C else C_c2 C)) \<and>
           (\<forall>k < length vs. vs ! k = 800 \<longrightarrow> terms ! k = C_c1 C)"
  using assms by (simp add: get_site_amplification_def)

theorem site_amplification_terms_witness:
  "get_site_amplification [(''vs30'', Array [800, 799.9, 1200, 300])]
     \<lparr>C_a = 0.3118, C_b = -0.0009303, C_c1 = 1.537, C_c2 = 1.573, C_std = 0.2923\<rparr> =
   Inr (Array [1.537, 1.573, 1.537, 1.573])"
proof -
  let ?sites = "[(''vs30'', Array [800, 799.9, 1200, 300])]"
  let ?C = "\<lparr>C_a = 0.3118, C_b = -0.0009303, C_c1 = 1.537, C_c2 = 1.573, C_std = 0.2923\<rparr>"
  have "getattr ?sites ''vs30'' = Inr (Array [800, 799.9, 1200, 300])"
    by (simp add: getattr_def)
  from site_amplification_terms [OF this, of ?C] obtain terms where
    t: "get_site_amplification ?sites ?C = Inr (Array terms)" "length terms = 4"
    and v: "\<And>k. k < 4 \<Longrightarrow> terms ! k = (if [800, 799.9, 1200, 300 :: real] ! k \<ge> 800
                 then 1.537 else 1.573)"
    by auto
  from v [of 0] v [of 1] v [of 2] v [of 3]
  have "terms ! 0 = 1.537" "terms ! 1 = 1.573" "terms ! 2 = 1.537" "terms ! 3 = 1.573"
    by (simp_all add: numeral_3_eq_3 numeral_2_eq_2)
  with t(2) have "terms = [1.537, 1.573, 1.537, 1.573]"
    by (intro nth_equalityI) (auto simp: less_Suc_eq numeral_eq_Suc)
  with t(1) show ?thesis by simp
qed

section \<open>Curves are probabilities\<close>

lemma float_power_unit:
  assumes "0 \<le> x" "x \<le> 1" "0 \<le> y"
  shows "0 \<le> float_power x y \<and> float_power x y \<le> 1"
  using assms by (simp add: float_power_def powr_le1)

lemma curves_le_refl: "curves_le curves curves"
  by (simp add: curves_le_def)

lemma curves_le_trans:
  assumes "curves_le c3 c2" "curves_le c2 c1"
  shows "curves_le c3 c1"
  unfolding curves_le_def
proof (intro allI impI)
  fix imt arr
  assume "c1 imt = Some arr"
  with assms(2) obtain arr2 where a2: "c2 imt = Some arr2" "shape arr2 = shape arr"
    and le2: "\<And>i j. i < fst (shape arr) \<Longrightarrow> j < snd (shape arr) \<Longrightarrow> item arr2 i j \<le> item arr i j"
    unfolding curves_le_def by blast
  from assms(1) a2(1) obtain arr3 where a3: "c3 imt = Some arr3" "shape arr3 = shape arr2"
    and le3: "\<And>i j. i < fst (shape arr2) \<Longrightarrow> j < snd (shape arr2) \<Longrightarrow> item arr3 i j \<le> item arr2 i j"
    unfolding curves_le_def by blast
  have "item arr3 i j \<le> item arr i j" if "i < fst (shape arr)" "j < snd (shape arr)" for i j
    using le2 [OF that] le3 [of i j] that a2(2) by simp
  with a3 a2(2) show "\<exists>arr'. c3 imt = Some arr' \<and> shape arr' = shape arr \<and>
           (\<forall>i j. i < fst (shape arr) \<longrightarrow> j < snd (shape arr) \<longrightarrow> item arr' i j \<le> item arr i j)"
    by simp
qed

lemma in_unit_ones: "in_unit (numpy_ones n m)"
  by (simp add: in_unit_def numpy_ones_def)

lemma in_unit_complement: "in_unit arr \<Longrightarrow> in_unit (scalar_minus 1 arr)"
  by (simp add: in_unit_def scalar_minus_def)

lemma factor_unit:
  assumes poes: "in_unit poes" "fst (shape poes) = length r_sites"
    and prob: "0 \<le> prob" "prob \<le> 1"
    and j: "j < snd (shape poes)"
  shows "0 \<le> item (expand r_sites (scalar_power (1 - prob) poes) total_sites 1) i j \<and>
         item (expand r_sites (scalar_power (1 - prob) poes) total_sites 1) i j \<le> 1"
proof -
  let ?x = "expand r_sites (scalar_power (1 - prob) poes) total_sites 1"
  from expand_item_cases [of r_sites "scalar_power (1 - prob) poes" total_sites 1 i j]
  consider "item ?x i j = 1"
    | k where "k < length r_sites" "item ?x i j = float_power (1 - prob) (item poes k j)"
    by (auto simp: scalar_power_def)
  then show ?thesis
  proof cases
    case 1
    then show ?thesis by simp
  next
    case 2
    from poes 2(1) j have "0 \<le> item poes k j" by (simp add: in_unit_def)
    with prob 2(2) show ?thesis by (simp add: float_power_unit)
  qed
qed

lemma update_curve_inv:
  assumes contract: "gsim_contract g"
    and ctx: "make_contexts g r_sites rupture = Inr ctx"
    and prob: "0 \<le> prob" "prob \<le> 1"
    and ok: "curves_ok total_sites imts curves"
    and step: "update_curve g ctx prob r_sites total_sites imts str t c curves imt = Inr curves'"
  shows "curves_ok total_sites imts curves' \<and> curves_le curves' curves"
proof -
  let ?x = "\<lambda>poes. expand r_sites (scalar_power (1 - prob) poes) total_sites 1"
  from step obtain imls poes curve curve' where
    imls: "map_of imts imt = Some imls"
    and poes: "get_poes_cav g ctx imt imls t c = Inr poes"
    and curve: "curves imt = Some curve"
    and mul: "imul curve (?x poes) = Inr curve'"
    and upd: "curves' = curves(imt \<mapsto> curve')"
    by (auto simp: update_curve_def getitem_def split: sum.splits option.splits)
  from contract ctx poes have ps: "shape poes = (length r_sites, length imls)" and pu: "in_unit poes"
    unfolding gsim_contract_def by blast+
  from ok imls obtain arr where
    "curves imt = Some arr" "shape arr = (total_sites, length imls)" "in_unit arr"
    unfolding curves_ok_def by blast
  with curve have cs: "shape curve = (total_sites, length imls)" and cu: "in_unit curve"
    by simp_all
  have "shape (?x poes) = shape curve"
    by (simp add: shape_expand scalar_power_def ps cs)
  with mul have eq: "curve' = \<lparr>shape = shape curve, item = (\<lambda>i j. item curve i j * item (?x poes) i j)\<rparr>"
    by (simp add: imul_same_shape)
  have fac: "0 \<le> item (?x poes) i j \<and> item (?x poes) i j \<le> 1" if "j < length imls" for i j
    using factor_unit [OF pu _ prob, of r_sites j total_sites i] that ps by simp
  have bounds: "0 \<le> item curve' i j \<and> item curve' i j \<le> 1 \<and> item curve' i j \<le> item curve i j"
    if "i < total_sites" "j < length imls" for i j
  proof -
    from cu cs that have c: "0 \<le> item curve i j" "item curve i j \<le> 1"
      by (simp_all add: in_unit_def)
    from fac [OF that(2), of i] have f: "0 \<le> item (?x poes) i j" "item (?x poes) i j \<le> 1"
      by simp_all
    have "item curve i j * item (?x poes) i j \<le> item curve i j"
      using c(1) f(2) by (simp add: mult_left_le)
    moreover have "item curve i j * item (?x poes) i j \<le> 1"
      using c f by (simp add: mult_le_one)
    moreover have "0 \<le> item curve i j * item (?x poes) i j"
      using c(1) f(1) by simp
    ultimately show ?thesis by (simp add: eq)
  qed
  have shape': "shape curve' = (total_sites, length imls)" by (simp add: eq cs)
  have "curves_ok total_sites imts curves'"
    unfolding curves_ok_def
  proof (intro allI impI)
    fix imt' imls'
    assume m: "map_of imts imt' = Some imls'"
    show "\<exists>arr. curves' imt' = Some arr \<and> shape arr = (total_sites, length imls') \<and> in_unit arr"
    proof (cases "imt' = imt")
      case True
      with m imls have "imls' = imls" by simp
      moreover have "in_unit curve'" using bounds by (simp add: in_unit_def shape')
      ultimately show ?thesis using True shape' by (simp add: upd)
    next
      case False
      with ok m show ?thesis by (simp add: upd curves_ok_def)
    qed
  qed
  moreover have "curves_le curves' curves"
    unfolding curves_le_def
  proof (intro allI impI)
    fix imt' arr
    assume a: "curves imt' = Some arr"
    show "\<exists>arr'. curves' imt' = Some arr' \<and> shape arr' = shape arr \<and>
           (\<forall>i j. i < fst (shape arr) \<longrightarrow> j < snd (shape arr) \<longrightarrow> item arr' i j \<le> item arr i j)"
    proof (cases "imt' = imt")
      case True
      with a curve have "arr = curve" by simp
      with True shape' cs bounds show ?thesis by (simp add: upd)
    next
      case False
      with a show ?thesis by (simp add: upd)
    qed
  qed
  ultimately show ?thesis by simp
qed

lemma imt_loop_inv:
  assumes "gsim_contract g"
    and "make_contexts g r_sites rupture = Inr ctx"
    and "0 \<le> prob" "prob \<le> 1"
  shows "curves_ok total_sites imts curves \<Longrightarrow>
    imt_loop g ctx prob r_sites total_sites imts str t c curves ks = Inr curves' \<Longrightarrow>
    curves_ok total_sites imts curves' \<and> curves_le curves' curves"
proof (induction ks arbitrary: curves)
  case Nil
  then show ?case by (simp add: curves_le_refl)
next
  case (Cons k ks)
  from Cons.prems(2) obtain cs where
    u: "update_curve g ctx prob r_sites total_sites imts str t c curves k = Inr cs" and
    l: "imt_loop g ctx prob r_sites total_sites imts str t c cs ks = Inr curves'"
    by (auto split: sum.splits)
  from update_curve_inv [OF assms Cons.prems(1) u]
  have 1: "curves_ok total_sites imts cs" "curves_le cs curves" by simp_all
  from Cons.IH [OF 1(1) l] have 2: "curves_ok total_sites imts curves'" "curves_le curves' cs"
    by simp_all
  from 2 1(2) show ?case by (auto intro: curves_le_trans)
qed

lemma process_rupture_inv:
  assumes gs: "\<forall>(trt, g) \<in> set gsims. gsim_contract g"
    and p: "prob_ok rupture"
    and ok: "curves_ok total_sites imts curves"
    and step: "process_rupture gsims total_sites imts str t c curves (rupture, r_sites) = Inr curves'"
  shows "curves_ok total_sites imts curves' \<and> curves_le curves' curves"
proof -
  from step obtain prob g ctx where
    prob: "get_probability_one_or_more_occurrences rupture = Inr prob"
    and g: "map_of gsims (tectonic_region_type rupture) = Some g"
    and ctx: "make_contexts g r_sites rupture = Inr ctx"
    and loop: "imt_loop g ctx prob r_sites total_sites imts str t c curves (dict_keys imts) = Inr curves'"
    by (auto simp: process_rupture_def getitem_def split: sum.splits option.splits)
  from g have "(tectonic_region_type rupture, g) \<in> set gsims" by (rule map_of_SomeD)
  with gs have "gsim_contract g" by auto
  moreover from p prob have "0 \<le> prob" "prob \<le> 1" by (simp_all add: prob_ok_def)
  ultimately show ?thesis using imt_loop_inv [OF _ ctx _ _ ok loop] by blast
qed

lemma rupture_loop_inv:
  assumes gs: "\<forall>(trt, g) \<in> set gsims. gsim_contract g"
  shows "\<forall>(rupture, r_sites) \<in> set_gen rs. prob_ok rupture \<Longrightarrow>
    curves_ok total_sites imts curves \<Longrightarrow>
    rupture_loop gsims total_sites imts str t c curves rs = Inr curves' \<Longrightarrow>
    curves_ok total_sites imts curves' \<and> curves_le curves' curves"
proof (induction rs arbitrary: curves)
  case Stop
  then show ?case by (simp add: curves_le_refl)
next
  case (Yield pair rs)
  obtain rupture r_sites where pair: "pair = (rupture, r_sites)" by (cases pair)
  from Yield.prems(3) obtain cs where
    u: "process_rupture gsims total_sites imts str t c curves (rupture, r_sites) = Inr cs" and
    l: "rupture_loop gsims total_sites imts str t c cs rs = Inr curves'"
    by (auto simp: pair split: sum.splits)
  from Yield.prems(1) have p: "prob_ok rupture" and rest: "\<forall>(rupture, r_sites) \<in> set_gen rs. prob_ok rupture"
    by (auto simp: pair)
  from process_rupture_inv [OF gs p Yield.prems(2) u]
  have 1: "curves_ok total_sites imts cs" "curves_le cs curves" by simp_all
  from Yield.IH [OF rest 1(1) l] have 2: "curves_ok total_sites imts curves'" "curves_le curves' cs"
    by simp_all
  from 2 1(2) show ?case by (auto intro: curves_le_trans)
next
  case (Raise e)
  then show ?case by simp
qed

lemma source_loop_inv:
  assumes gs: "\<forall>(trt, g) \<in> set gsims. gsim_contract g"
  shows "\<forall>(source, s_sites) \<in> set_gen ss.
       \<forall>(rupture, r_sites) \<in> set_gen
           (rsf (gen_map (\<lambda>rupture. (rupture, s_sites)) (iter_ruptures source tom))).
         prob_ok rupture \<Longrightarrow>
    curves_ok total_sites imts curves \<Longrightarrow>
    source_loop tom gsims total_sites imts str t rsf c curves ss = Inr curves' \<Longrightarrow>
    curves_ok total_sites imts curves' \<and> curves_le curves' curves"
proof (induction ss arbitrary: curves)
  case Stop
  then show ?case by (simp add: curves_le_refl)
next
  case (Yield pair ss)
  obtain source s_sites where pair: "pair = (source, s_sites)" by (cases pair)
  from Yield.prems(3) obtain cs where
    u: "rupture_loop gsims total_sites imts str t c curves
          (rsf (gen_map (\<lambda>rupture. (rupture, s_sites)) (iter_ruptures source tom))) = Inr cs" and
    l: "source_loop tom gsims total_sites imts str t rsf c cs ss = Inr curves'"
    by (auto simp: pair process_source_def split: sum.splits)
  from Yield.prems(1) have p: "\<forall>(rupture, r_sites) \<in> set_gen
           (rsf (gen_map (\<lambda>rupture. (rupture, s_sites)) (iter_ruptures source tom))).
         prob_ok rupture"
    and rest: "\<forall>(source, s_sites) \<in> set_gen ss.
       \<forall>(rupture, r_sites) \<in> set_gen
           (rsf (gen_map (\<lambda>rupture. (rupture, s_sites)) (iter_ruptures source tom))).
         prob_ok rupture"
    by (auto simp: pair)
  from rupture_loop_inv [OF gs p Yield.prems(2) u]
  have 1: "curves_ok total_sites imts cs" "curves_le cs curves" by simp_all
  from Yield.IH [OF rest 1(1) l] have 2: "curves_ok total_sites imts curves'" "curves_le curves' cs"
    by simp_all
  from 2 1(2) show ?case by (auto intro: curves_le_trans)
next
  case (Raise e)
  then show ?case by simp
qed

lemma initial_curves_lookup:
  "initial_curves sites imts imt =
     map_option (\<lambda>imls. numpy_ones (length sites) (length imls)) (map_of imts imt)"
  by (simp add: initial_curves_def map_of_map)

lemma initial_curves_ok: "curves_ok (length sites) imts (initial_curves sites imts)"
  by (simp add: curves_ok_def initial_curves_lookup in_unit_def numpy_ones_def)

lemma complement_curves_ok:
  assumes "curves_ok total_sites imts curves"
  shows "curves_ok total_sites imts (complement_loop curves (dict_keys imts))"
  unfolding curves_ok_def
proof (intro allI impI)
  fix imt imls
  assume m: "map_of imts imt = Some imls"
  then have "imt \<in> set (dict_keys imts)"
    by (auto simp: dict_keys_def dest: map_of_SomeD intro: rev_image_eqI)
  moreover from assms m obtain arr where
    "curves imt = Some arr" "shape arr = (total_sites, length imls)" "in_unit arr"
    unfolding curves_ok_def by blast
  ultimately show "\<exists>arr. complement_loop curves (dict_keys imts) imt = Some arr \<and>
          shape arr = (total_sites, length imls) \<and> in_unit arr"
    by (simp add: complement_loop_eq dict_keys_def in_unit_complement)
       (simp add: scalar_minus_def)
qed

lemma stub_gsim_contract: "0 \<le> poe \<Longrightarrow> poe \<le> 1 \<Longrightarrow> gsim_contract (stub_gsim poe)"
  by (auto simp: gsim_contract_def stub_gsim_def in_unit_def)

text \<open>
  Claim C4. When every model of \<open>gsims\<close> keeps its contract (probabilities of
  exceedance between 0 and 1, one row per site and one column per level): the curves
  start as arrays of ones; a fold step (the body of the loop over the ruptures) for a
  rupture whose probability of occurrence is between 0 and 1 takes well-formed curves
  with values between 0 and 1 to such curves, and no value increases; and when every
  rupture that survives the filters has a probability of occurrence between 0 and 1,
  every curve the calculator returns has its shape and all its values between 0 and 1.
\<close>

theorem accumulator_invariant:
  assumes gs: "\<forall>(trt, g) \<in> set gsims. gsim_contract g"
  shows
   "(\<forall>imt imls. map_of imts imt = Some imls \<longrightarrow>
       initial_curves sites imts imt = Some (numpy_ones (length sites) (length imls))) \<and>
    curves_ok (length sites) imts (initial_curves sites imts) \<and>
    (\<forall>curves curves' rupture r_sites.
       curves_ok (length sites) imts curves \<longrightarrow> prob_ok rupture \<longrightarrow>
       process_rupture gsims (length sites) imts str truncation_level cav_min curves
         (rupture, r_sites) = Inr curves' \<longrightarrow>
       curves_ok (length sites) imts curves' \<and> curves_le curves' curves) \<and>
    (PoissonTOM time_span = Inr tom \<longrightarrow>
     (\<forall>(source, s_sites) \<in> set_gen
          (source_site_filter (gen_of_list (map (\<lambda>source. (source, sites)) sources))).
        \<forall>(rupture, r_sites) \<in> set_gen
            (rupture_site_filter
               (gen_map (\<lambda>rupture. (rupture, s_sites)) (iter_ruptures source tom))).
          prob_ok rupture) \<longrightarrow>
     hazard_curves_poissonian PoissonTOM str sources sites imts time_span gsims
       truncation_level source_site_filter rupture_site_filter cav_min = Inr result \<longrightarrow>
     curves_ok (length sites) imts result)"
proof (intro conjI allI impI)
  fix imt imls
  assume "map_of imts imt = Some imls"
  then show "initial_curves sites imts imt = Some (numpy_ones (length sites) (length imls))"
    by (simp add: initial_curves_lookup)
next
  show "curves_ok (length sites) imts (initial_curves sites imts)"
    by (rule initial_curves_ok)
next
  fix curves curves' :: "'c \<rightharpoonup> ndarray" and rupture :: "'a rupture_scheme" and r_sites
  assume "curves_ok (length sites) imts curves" "prob_ok rupture"
    "process_rupture gsims (length sites) imts str truncation_level cav_min curves
         (rupture, r_sites) = Inr curves'"
  from process_rupture_inv [OF gs this(2) this(1) this(3)]
  show "curves_ok (length sites) imts curves'" "curves_le curves' curves" by simp_all
next
  assume tom: "PoissonTOM time_span = Inr tom"
    and probs: "\<forall>(source, s_sites) \<in> set_gen
          (source_site_filter (gen_of_list (map (\<lambda>source. (source, sites)) sources))).
        \<forall>(rupture, r_sites) \<in> set_gen
            (rupture_site_filter
               (gen_map (\<lambda>rupture. (rupture, s_sites)) (iter_ruptures source tom))).
          prob_ok rupture"
    and run: "hazard_curves_poissonian PoissonTOM str sources sites imts time_span gsims
       truncation_level source_site_filter rupture_site_filter cav_min = Inr result"
  from run tom obtain curves' where
    loop: "source_loop tom gsims (length sites) imts str truncation_level rupture_site_filter
       cav_min (initial_curves sites imts)
       (source_site_filter (gen_of_list (map (\<lambda>source. (source, sites)) sources))) = Inr curves'"
    and res: "result = complement_loop curves' (dict_keys imts)"
    by (auto simp: hazard_curves_poissonian_def split: sum.splits)
  from source_loop_inv [where rsf = rupture_site_filter, OF gs probs initial_curves_ok loop]
  have "curves_ok (length sites) imts curves'" by simp
  then show "curves_ok (length sites) imts result"
    unfolding res by (rule complement_curves_ok)
qed

theorem accumulator_invariant_witness:
  "\<exists>result arr.
     hazard_curves_poissonian stub_tom (\<lambda>imt. imt)
       [stub_source ''src-1'' [stub_rupture ''Active Shallow Crust'' (1/10),
                               stub_rupture ''Active Shallow Crust'' (1/5)]]
       [0] [(''PGA'', [0.1])] 50 [(''Active Shallow Crust'', stub_gsim 1)] 3
       source_site_noop_filter rupture_site_noop_filter 0 = Inr result \<and>
     result ''PGA'' = Some arr \<and> shape arr = (1, 1) \<and>
     0 \<le> item arr 0 0 \<and> item arr 0 0 \<le> 1"
proof -
  let ?r1 = "stub_rupture ''Active Shallow Crust'' (1/10)"
  let ?r2 = "stub_rupture ''Active Shallow Crust'' (1/5)"
  let ?s1 = "stub_source ''src-1'' [?r1, ?r2]"
  let ?gsims = "[(''Active Shallow Crust'', stub_gsim 1)]"
  let ?imts = "[(''PGA'', [0.1 :: real])]"
  have gs: "\<forall>(trt, g) \<in> set ?gsims. gsim_contract g"
    by (simp add: stub_gsim_contract)
  have tom: "stub_tom 50 = Inr 50" by (simp add: stub_tom_def)
  have probs: "\<forall>(source, s_sites) \<in> set_gen
          (source_site_noop_filter (gen_of_list (map (\<lambda>source. (source, [0])) [?s1]))).
        \<forall>(rupture, r_sites) \<in> set_gen
            (rupture_site_noop_filter
               (gen_map (\<lambda>rupture. (rupture, s_sites)) (iter_ruptures source (50 :: real)))).
          prob_ok rupture"
    by (simp add: source_site_noop_filter_def rupture_site_noop_filter_def stub_source_def
        stub_rupture_def prob_ok_def)
  obtain result where run:
    "hazard_curves_poissonian stub_tom (\<lambda>imt. imt) [?s1] [0] ?imts 50 ?gsims 3
       source_site_noop_filter rupture_site_noop_filter 0 = Inr result"
    by (simp add: hazard_curves_poissonian_def initial_curves_def stub_tom_def stub_source_def
     stub_rupture_def stub_gsim_def source_site_noop_filter_def rupture_site_noop_filter_def
     process_source_def process_rupture_def getitem_def dict_keys_def update_curve_def
     numpy_ones_def expand_def scalar_power_def imul_def)
  from accumulator_invariant [OF gs, where sites = "[0]" and imts = ?imts
      and PoissonTOM = stub_tom and time_span = 50 and tom = 50
      and source_site_filter = source_site_noop_filter
      and rupture_site_filter = rupture_site_noop_filter and sources = "[?s1]"
      and str = "\<lambda>imt. imt" and truncation_level = 3 and cav_min = 0 and result = result]
    tom probs run
  have "curves_ok (length [0 :: nat]) ?imts result" by blast
  moreover have "map_of ?imts ''PGA'' = Some [0.1]" by simp
  ultimately have "\<exists>arr. result ''PGA'' = Some arr \<and>
      shape arr = (length [0 :: nat], length [0.1 :: real]) \<and> in_unit arr"
    unfolding curves_ok_def by blast
  then obtain arr where "result ''PGA'' = Some arr" "shape arr = (1, 1)" "in_unit arr"
    by auto
  with run show ?thesis by (auto simp: in_unit_def)
qed

section \<open>The order of the sources\<close>

lemma scale_one: "scale (\<lambda>imt i j. 1) curves = curves"
proof
  fix imt
  show "scale (\<lambda>imt i j. 1) curves imt = curves imt"
    by (cases "curves imt") (simp_all add: scale_def)
qed

lemma scale_scale:
  "scale S (scale T curves) = scale (\<lambda>imt i j. S imt i j * T imt i j) curves"
proof
  fix imt
  show "scale S (scale T curves) imt = scale (\<lambda>imt i j. S imt i j * T imt i j) curves imt"
    by (cases "curves imt") (simp_all add: scale_def mult.assoc)
qed

lemma scale_upd:
  "scale S (curves(imt \<mapsto> arr)) =
     (scale S curves)(imt \<mapsto> \<lparr>shape = shape arr, item = (\<lambda>i j. S imt i j * item arr i j)\<rparr>)"
  by (auto simp: scale_def fun_eq_iff)

lemma imul_scaled:
  "imul \<lparr>shape = shape arr, item = (\<lambda>i j. s i j * item arr i j)\<rparr> b =
     (case imul arr b of
        Inl e \<Rightarrow> Inl e
      | Inr arr' \<Rightarrow> Inr \<lparr>shape = shape arr', item = (\<lambda>i j. s i j * item arr' i j)\<rparr>)"
  by (cases "shape arr"; cases "shape b") (auto simp: imul_def mult.assoc)

lemma update_curve_scale:
  "update_curve g ctx prob r_sites total_sites imts str t c (scale S curves) imt =
     (case update_curve g ctx prob r_sites total_sites imts str t c curves imt of
        Inl e \<Rightarrow> Inl e
      | Inr curves' \<Rightarrow> Inr (scale S curves'))"
proof (cases "curves imt")
  case None
  then show ?thesis
    by (auto simp: update_curve_def scale_def split: sum.splits)
next
  case (Some arr)
  then have "scale S curves imt = Some \<lparr>shape = shape arr, item = (\<lambda>i j. S imt i j * item arr i j)\<rparr>"
    by (simp add: scale_def)
  with Some show ?thesis
    by (auto simp: update_curve_def imul_scaled scale_upd split: sum.splits)
qed

lemma imt_loop_scale:
  "imt_loop g ctx prob r_sites total_sites imts str t c (scale S curves) ks =
     (case imt_loop g ctx prob r_sites total_sites imts str t c curves ks of
        Inl e \<Rightarrow> Inl e
      | Inr curves' \<Rightarrow> Inr (scale S curves'))"
  by (induction ks arbitrary: curves) (auto simp: update_curve_scale split: sum.splits)

lemma process_rupture_scale:
  "process_rupture gsims total_sites imts str t c (scale S curves) pair =
     (case process_rupture gsims total_sites imts str t c curves pair of
        Inl e \<Rightarrow> Inl e
      | Inr curves' \<Rightarrow> Inr (scale S curves'))"
  by (auto simp: process_rupture_def imt_loop_scale split: sum.splits prod.splits)

lemma rupture_loop_scale:
  "rupture_loop gsims total_sites imts str t c (scale S curves) rs =
     (case rupture_loop gsims total_sites imts str t c curves rs of
        Inl e \<Rightarrow> Inl e
      | Inr curves' \<Rightarrow> Inr (scale S curves'))"
  by (induction rs arbitrary: curves) (auto simp: process_rupture_scale split: sum.splits)

lemma process_source_scale:
  "process_source tom gsims total_sites imts str t rsf c (scale S curves) pair =
     (case process_source tom gsims total_sites imts str t rsf c curves pair of
        Inl e \<Rightarrow> Inl e
      | Inr curves' \<Rightarrow> Inr (scale S curves'))"
  by (auto simp: process_source_def rupture_loop_scale split: sum.splits prod.splits)

lemma source_step_scale:
  "source_step f tom gsims total_sites imts str t rsf c sites (scale S curves) source =
     (case source_step f tom gsims total_sites imts str t rsf c sites curves source of
        Inl e \<Rightarrow> Inl e
      | Inr curves' \<Rightarrow> Inr (scale S curves'))"
  by (auto simp: source_step_def process_source_scale split: sum.splits option.splits)

lemma same_shapes_refl: "same_shapes curves curves"
  by (simp add: same_shapes_def)

lemma same_shapes_trans:
  "same_shapes c1 c2 \<Longrightarrow> same_shapes c2 c3 \<Longrightarrow> same_shapes c1 c3"
  by (simp add: same_shapes_def)

lemma update_curve_shapes:
  "update_curve g ctx prob r_sites total_sites imts str t c curves imt = Inr curves' \<Longrightarrow>
   same_shapes curves curves'"
  by (auto simp: update_curve_def same_shapes_def dest: imul_shape split: sum.splits option.splits)

lemma imt_loop_shapes:
  "imt_loop g ctx prob r_sites total_sites imts str t c curves ks = Inr curves' \<Longrightarrow>
   same_shapes curves curves'"
proof (induction ks arbitrary: curves)
  case Nil
  then show ?case by (simp add: same_shapes_refl)
next
  case (Cons k ks)
  then show ?case
    by (auto split: sum.splits dest!: update_curve_shapes intro: same_shapes_trans)
qed

lemma process_rupture_shapes:
  "process_rupture gsims total_sites imts str t c curves pair = Inr curves' \<Longrightarrow>
   same_shapes curves curves'"
  by (auto simp: process_rupture_def split: sum.splits prod.splits dest: imt_loop_shapes)

lemma rupture_loop_shapes:
  "rupture_loop gsims total_sites imts str t c curves rs = Inr curves' \<Longrightarrow>
   same_shapes curves curves'"
proof (induction rs arbitrary: curves)
  case Stop
  then show ?case by (simp add: same_shapes_refl)
next
  case (Yield pair rs)
  then show ?case
    by (auto split: sum.splits dest!: process_rupture_shapes intro: same_shapes_trans)
next
  case (Raise e)
  then show ?case by simp
qed

lemma source_step_shapes:
  "source_step f tom gsims total_sites imts str t rsf c sites curves source = Inr curves' \<Longrightarrow>
   same_shapes curves curves'"
  by (auto simp: source_step_def process_source_def same_shapes_refl
      split: sum.splits option.splits dest: rupture_loop_shapes)

lemma scale_items_of_initial:
  assumes "same_shapes (initial_curves sites imts) curves"
  shows "scale (items_of curves) (initial_curves sites imts) = curves"
proof
  fix imt
  from assms have s: "map_option shape (curves imt) =
      map_option shape (initial_curves sites imts imt)"
    by (simp add: same_shapes_def)
  show "scale (items_of curves) (initial_curves sites imts) imt = curves imt"
  proof (cases "map_of imts imt")
    case None
    with s show ?thesis by (simp add: scale_def initial_curves_lookup)
  next
    case (Some imls)
    with s obtain arr where "curves imt = Some arr"
      "shape arr = (length sites, length imls)"
      by (auto simp: initial_curves_lookup numpy_ones_def)
    with Some show ?thesis
      by (simp add: scale_def initial_curves_lookup numpy_ones_def items_of_def)
  qed
qed

lemma source_loop_run_steps:
  "source_loop tom gsims total_sites imts str t rsf c curves
     (filter_pairs f (gen_of_list (map (\<lambda>source. (source, sites)) sources))) =
   run_steps (source_step f tom gsims total_sites imts str t rsf c sites) curves sources"
  by (induction sources arbitrary: curves)
     (auto simp: source_step_def split: sum.splits option.splits)

lemma run_steps_closed:
  fixes step :: "('imt \<rightharpoonup> ndarray) \<Rightarrow> 'x \<Rightarrow> exn + ('imt \<rightharpoonup> ndarray)"
  assumes comm: "\<And>S curves x. step (scale S curves) x =
      (case step curves x of Inl e \<Rightarrow> Inl e | Inr curves' \<Rightarrow> Inr (scale S curves'))"
    and init: "\<And>x cx. step c0 x = Inr cx \<Longrightarrow> scale (items_of cx) c0 = cx"
  shows "\<forall>x \<in> set xs. \<exists>cx. step c0 x = Inr cx \<Longrightarrow>
    run_steps step (scale S c0) xs =
      Inr (scale (\<lambda>imt i j. S imt i j *
             prod_list (map (\<lambda>x. items_of (projr (step c0 x)) imt i j) xs)) c0)"
proof (induction xs arbitrary: S)
  case Nil
  then show ?case by simp
next
  case (Cons x xs)
  from Cons.prems obtain cx where cx: "step c0 x = Inr cx" by auto
  let ?S' = "\<lambda>imt i j. S imt i j * items_of cx imt i j"
  have "step (scale S c0) x = Inr (scale S cx)" by (simp add: comm cx)
  also have "scale S cx = scale S (scale (items_of cx) c0)" by (simp add: init [OF cx])
  also have "\<dots> = scale ?S' c0" by (simp add: scale_scale)
  finally have first: "step (scale S c0) x = Inr (scale ?S' c0)" .
  from Cons.prems have "\<forall>x \<in> set xs. \<exists>cx. step c0 x = Inr cx" by simp
  from Cons.IH [OF this, of ?S'] first cx
  show ?case by (simp add: mult.assoc)
qed

lemma run_steps_all_ok:
  fixes step :: "('imt \<rightharpoonup> ndarray) \<Rightarrow> 'x \<Rightarrow> exn + ('imt \<rightharpoonup> ndarray)"
  assumes comm: "\<And>S curves x. step (scale S curves) x =
      (case step curves x of Inl e \<Rightarrow> Inl e | Inr curves' \<Rightarrow> Inr (scale S curves'))"
    and init: "\<And>x cx. step c0 x = Inr cx \<Longrightarrow> scale (items_of cx) c0 = cx"
  shows "run_steps step (scale S c0) xs = Inr r \<Longrightarrow> \<forall>x \<in> set xs. \<exists>cx. step c0 x = Inr cx"
proof (induction xs arbitrary: S)
  case Nil
  then show ?case by simp
next
  case (Cons x xs)
  from Cons.prems obtain cx where cx: "step c0 x = Inr cx"
    and rest: "run_steps step (scale S cx) xs = Inr r"
    by (auto simp: comm split: sum.splits)
  let ?S' = "\<lambda>imt i j. S imt i j * items_of cx imt i j"
  have "scale S cx = scale S (scale (items_of cx) c0)" by (simp add: init [OF cx])
  also have "\<dots> = scale ?S' c0" by (simp add: scale_scale)
  finally have "run_steps step (scale ?S' c0) xs = Inr r" using rest by simp
  from Cons.IH [OF this] cx show ?case by auto
qed

lemma prod_list_map_mset:
  fixes g :: "'x \<Rightarrow> real"
  assumes "mset ys = mset xs"
  shows "prod_list (map g ys) = prod_list (map g xs)"
proof -
  have "prod_list (map g ys) = prod_mset (image_mset g (mset ys))"
    by (simp flip: prod_mset_prod_list)
  also have "\<dots> = prod_mset (image_mset g (mset xs))" by (simp add: assms)
  also have "\<dots> = prod_list (map g xs)" by (simp flip: prod_mset_prod_list)
  finally show ?thesis .
qed

lemma run_steps_perm:
  fixes step :: "('imt \<rightharpoonup> ndarray) \<Rightarrow> 'x \<Rightarrow> exn + ('imt \<rightharpoonup> ndarray)"
  assumes comm: "\<And>S curves x. step (scale S curves) x =
      (case step curves x of Inl e \<Rightarrow> Inl e | Inr curves' \<Rightarrow> Inr (scale S curves'))"
    and init: "\<And>x cx. step c0 x = Inr cx \<Longrightarrow> scale (items_of cx) c0 = cx"
    and perm: "mset ys = mset xs"
    and run: "run_steps step c0 xs = Inr r"
  shows "run_steps step c0 ys = Inr r"
proof -
  let ?one = "\<lambda>(imt :: 'imt) (i :: nat) (j :: nat). 1 :: real"
  from run have run1: "run_steps step (scale ?one c0) xs = Inr r" by (simp add: scale_one)
  from run_steps_all_ok [of step c0, OF comm init run1]
  have okx: "\<forall>x \<in> set xs. \<exists>cx. step c0 x = Inr cx" by simp
  from perm have "set ys = set xs" by (rule mset_eq_setD)
  with okx have oky: "\<forall>x \<in> set ys. \<exists>cx. step c0 x = Inr cx" by simp
  have "run_steps step (scale ?one c0) ys =
      Inr (scale (\<lambda>imt i j. 1 *
             prod_list (map (\<lambda>x. items_of (projr (step c0 x)) imt i j) ys)) c0)"
    by (rule run_steps_closed [of step c0, OF comm init oky])
  also have "(\<lambda>imt i j. 1 * prod_list (map (\<lambda>x. items_of (projr (step c0 x)) imt i j) ys)) =
      (\<lambda>imt i j. 1 * prod_list (map (\<lambda>x. items_of (projr (step c0 x)) imt i j) xs))"
    by (simp add: prod_list_map_mset [OF perm])
  also have "Inr (scale (\<lambda>imt i j. 1 *
             prod_list (map (\<lambda>x. items_of (projr (step c0 x)) imt i j) xs)) c0) =
      run_steps step (scale ?one c0) xs"
    by (rule run_steps_closed [of step c0, OF comm init okx, symmetric])
  finally show ?thesis using run1 by (simp add: scale_one)
qed

lemma filter_pairs_noop: "filter_pairs (\<lambda>x s. Inr (Some s)) pairs = source_site_noop_filter pairs"
  unfolding source_site_noop_filter_def
proof (induction pairs)
  case Stop
  then show ?case by simp
next
  case (Yield pair pairs)
  then show ?case by (cases pair) simp
next
  case (Raise e)
  then show ?case by simp
qed

lemma order_of_sources_pairs:
  assumes perm: "mset sources' = mset sources"
    and run: "hazard_curves_poissonian PoissonTOM str sources sites imts time_span gsims
       truncation_level (filter_pairs f) rupture_site_filter cav_min = Inr result"
  shows "hazard_curves_poissonian PoissonTOM str sources' sites imts time_span gsims
       truncation_level (filter_pairs f) rupture_site_filter cav_min = Inr result"
proof -
  from run obtain tom where tom: "PoissonTOM time_span = Inr tom"
    by (auto simp: hazard_curves_poissonian_def split: sum.splits)
  let ?step = "source_step f tom gsims (length sites) imts str truncation_level
      rupture_site_filter cav_min sites"
  let ?c0 = "initial_curves sites imts"
  from run tom obtain curves' where
    loop: "run_steps ?step ?c0 sources = Inr curves'"
    and res: "result = complement_loop curves' (dict_keys imts)"
    by (auto simp: hazard_curves_poissonian_def source_loop_run_steps split: sum.splits)
  have "run_steps ?step ?c0 sources' = Inr curves'"
  proof (rule run_steps_perm [OF _ _ perm loop])
    show "?step (scale S curves) x =
        (case ?step curves x of Inl e \<Rightarrow> Inl e | Inr curves' \<Rightarrow> Inr (scale S curves'))"
      for S curves x
      by (rule source_step_scale)
    show "scale (items_of cx) ?c0 = cx" if "?step ?c0 x = Inr cx" for x cx
      using that by (intro scale_items_of_initial source_step_shapes)
  qed
  with tom res show ?thesis
    by (simp add: hazard_curves_poissonian_def source_loop_run_steps)
qed

text \<open>
  Claim C5. Two lists of sources that are permutations of each other give the same
  curves: when the calculator returns curves for one, it returns the same curves for the
  other. The numbers are real numbers, so the product over the ruptures is commutative
  and associative exactly; rounding is outside the model. The source-site filter is the
  no-op filter or any filter that works pair by pair, as the contract of the filters
  says; the rupture-site filter is arbitrary. When a source fails, both calls raise, and
  the error names the first failing source in the order given.
\<close>

theorem order_of_sources:
  assumes perm: "mset sources' = mset sources"
  shows
   "(hazard_curves_poissonian PoissonTOM str sources sites imts time_span gsims
       truncation_level (filter_pairs f) rupture_site_filter cav_min = Inr result \<longrightarrow>
     hazard_curves_poissonian PoissonTOM str sources' sites imts time_span gsims
       truncation_level (filter_pairs f) rupture_site_filter cav_min = Inr result) \<and>
    (hazard_curves_poissonian PoissonTOM str sources sites imts time_span gsims
       truncation_level source_site_noop_filter rupture_site_filter cav_min = Inr result \<longrightarrow>
     hazard_curves_poissonian PoissonTOM str sources' sites imts time_span gsims
       truncation_level source_site_noop_filter rupture_site_filter cav_min = Inr result)"
proof (intro conjI impI)
  assume "hazard_curves_poissonian PoissonTOM str sources sites imts time_span gsims
       truncation_level (filter_pairs f) rupture_site_filter cav_min = Inr result"
  then show "hazard_curves_poissonian PoissonTOM str sources' sites imts time_span gsims
       truncation_level (filter_pairs f) rupture_site_filter cav_min = Inr result"
    by (rule order_of_sources_pairs [OF perm])
next
  have eq: "hazard_curves_poissonian PoissonTOM str xs sites imts time_span gsims
       truncation_level source_site_noop_filter rupture_site_filter cav_min =
     hazard_curves_poissonian PoissonTOM str xs sites imts time_span gsims
       truncation_level (filter_pairs (\<lambda>x s. Inr (Some s))) rupture_site_filter cav_min" for xs
    by (simp add: hazard_curves_poissonian_def filter_pairs_noop split: sum.splits)
  assume "hazard_curves_poissonian PoissonTOM str sources sites imts time_span gsims
       truncation_level source_site_noop_filter rupture_site_filter cav_min = Inr result"
  then show "hazard_curves_poissonian PoissonTOM str sources' sites imts time_span gsims
       truncation_level source_site_noop_filter rupture_site_filter cav_min = Inr result"
    unfolding eq by (rule order_of_sources_pairs [OF perm])
qed

theorem order_of_sources_witness:
  "\<exists>result.
     hazard_curves_poissonian stub_tom (\<lambda>imt. imt)
       [stub_source ''src-1'' [stub_rupture ''Active Shallow Crust'' (1/10)],
        stub_source ''src-2'' [stub_rupture ''Active Shallow Crust'' (1/5)]]
       [0] [(''PGA'', [0.1])] 50 [(''Active Shallow Crust'', stub_gsim 1)] 3
       source_site_noop_filter rupture_site_noop_filter 0 = Inr result \<and>
     hazard_curves_poissonian stub_tom (\<lambda>imt. imt)
       [stub_source ''src-2'' [stub_rupture ''Active Shallow Crust'' (1/5)],
        stub_source ''src-1'' [stub_rupture ''Active Shallow Crust'' (1/10)]]
       [0] [(''PGA'', [0.1])] 50 [(''Active Shallow Crust'', stub_gsim 1)] 3
       source_site_noop_filter rupture_site_noop_filter 0 = Inr result"
proof -
  let ?s1 = "stub_source ''src-1'' [stub_rupture ''Active Shallow Crust'' (1/10)]"
  let ?s2 = "stub_source ''src-2'' [stub_rupture ''Active Shallow Crust'' (1/5)]"
  obtain result where run:
    "hazard_curves_poissonian stub_tom (\<lambda>imt. imt) [?s1, ?s2] [0] [(''PGA'', [0.1])] 50
       [(''Active Shallow Crust'', stub_gsim 1)] 3
       source_site_noop_filter rupture_site_noop_filter 0 = Inr result"
    by (simp add: hazard_curves_poissonian_def initial_curves_def stub_tom_def stub_source_def
     stub_rupture_def stub_gsim_def rupture_site_noop_filter_def source_site_noop_filter_def
     process_source_def process_rupture_def getitem_def dict_keys_def update_curve_def
     numpy_ones_def expand_def scalar_power_def imul_def)
  have "mset [?s2, ?s1] = mset [?s1, ?s2]" by (simp add: add_mset_commute)
  from order_of_sources [OF this, THEN conjunct2, rule_format, OF run] run
  show ?thesis by blast
qed

section \<open>The fold over every surviving pair\<close>

lemma source_loop_shapes:
  "source_loop tom gsims total_sites imts str t rsf c curves ss = Inr curves' \<Longrightarrow>
   same_shapes curves curves'"
proof (induction ss arbitrary: curves)
  case Stop
  then show ?case by (simp add: same_shapes_refl)
next
  case (Yield pair ss)
  obtain source s_sites where pair: "pair = (source, s_sites)" by (cases pair)
  from Yield.prems obtain cs where
    u: "rupture_loop gsims total_sites imts str t c curves
          (rsf (gen_map (\<lambda>rupture. (rupture, s_sites)) (iter_ruptures source tom))) = Inr cs" and
    l: "source_loop tom gsims total_sites imts str t rsf c cs ss = Inr curves'"
    by (auto simp: pair process_source_def split: sum.splits)
  from rupture_loop_shapes [OF u] Yield.IH [OF l] show ?case by (rule same_shapes_trans)
next
  case (Raise e)
  then show ?case by simp
qed

lemma rupture_loop_split:
  assumes "rupture_loop gsims total_sites imts str t c curves
             (gen_prepend before (Yield pair rest)) = Inr final"
  shows "\<exists>acc acc'. rupture_loop gsims total_sites imts str t c curves (gen_of_list before) = Inr acc \<and>
           process_rupture gsims total_sites imts str t c acc pair = Inr acc' \<and>
           rupture_loop gsims total_sites imts str t c acc' rest = Inr final"
  using assms by (auto simp: rupture_loop_prepend split: sum.splits)

lemma source_loop_split:
  assumes "source_loop tom gsims total_sites imts str t rsf c curves
             (gen_prepend before (Yield (source, s_sites) rest)) = Inr final"
  shows "\<exists>acc acc'. source_loop tom gsims total_sites imts str t rsf c curves (gen_of_list before) = Inr acc \<and>
           rupture_loop gsims total_sites imts str t c acc
             (rsf (gen_map (\<lambda>rupture. (rupture, s_sites)) (iter_ruptures source tom))) = Inr acc' \<and>
           source_loop tom gsims total_sites imts str t rsf c acc' rest = Inr final"
  using assms by (auto simp: source_loop_prepend process_source_def split: sum.splits)

lemma process_rupture_fold:
  assumes step: "process_rupture gsims total_sites imts str t c acc (rupture, r_sites) = Inr acc'"
    and shapes: "same_shapes (initial_curves sites imts) acc"
    and total: "total_sites = length sites"
  shows "\<exists>prob g ctx.
     get_probability_one_or_more_occurrences rupture = Inr prob \<and>
     map_of gsims (tectonic_region_type rupture) = Some g \<and>
     make_contexts g r_sites rupture = Inr ctx \<and>
     (\<forall>imt imls. map_of imts imt = Some imls \<longrightarrow>
        (\<exists>poes curve curve'.
           get_poes_cav g ctx imt imls t c = Inr poes \<and>
           acc imt = Some curve \<and> shape curve = (total_sites, length imls) \<and>
           acc' imt = Some curve' \<and>
           imul curve (expand r_sites (scalar_power (1 - prob) poes) total_sites 1) = Inr curve' \<and>
           (shape poes = (length r_sites, length imls) \<longrightarrow>
              shape curve' = (total_sites, length imls) \<and>
              (\<forall>i j. item curve' i j =
                 item curve i j *
                   item (expand r_sites (scalar_power (1 - prob) poes) total_sites 1) i j) \<and>
              (\<forall>i j. i \<notin> set r_sites \<longrightarrow> item curve' i j = item curve i j) \<and>
              (distinct r_sites \<longrightarrow>
                 (\<forall>k j. k < length r_sites \<longrightarrow>
                    item curve' (r_sites ! k) j =
                      item curve (r_sites ! k) j * float_power (1 - prob) (item poes k j))))))"
proof -
  from step obtain prob g ctx where
    prob: "get_probability_one_or_more_occurrences rupture = Inr prob"
    and g: "map_of gsims (tectonic_region_type rupture) = Some g"
    and ctx: "make_contexts g r_sites rupture = Inr ctx"
    and loop: "imt_loop g ctx prob r_sites total_sites imts str t c acc (dict_keys imts) = Inr acc'"
    by (auto simp: process_rupture_def getitem_def split: sum.splits option.splits)
  have each: "\<exists>poes curve curve'.
           get_poes_cav g ctx imt imls t c = Inr poes \<and>
           acc imt = Some curve \<and> shape curve = (total_sites, length imls) \<and>
           acc' imt = Some curve' \<and>
           imul curve (expand r_sites (scalar_power (1 - prob) poes) total_sites 1) = Inr curve' \<and>
           (shape poes = (length r_sites, length imls) \<longrightarrow>
              shape curve' = (total_sites, length imls) \<and>
              (\<forall>i j. item curve' i j =
                 item curve i j *
                   item (expand r_sites (scalar_power (1 - prob) poes) total_sites 1) i j) \<and>
              (\<forall>i j. i \<notin> set r_sites \<longrightarrow> item curve' i j = item curve i j) \<and>
              (distinct r_sites \<longrightarrow>
                 (\<forall>k j. k < length r_sites \<longrightarrow>
                    item curve' (r_sites ! k) j =
                      item curve (r_sites ! k) j * float_power (1 - prob) (item poes k j))))"
    if imls: "map_of imts imt = Some imls" for imt imls
  proof -
    from shapes imls obtain curve where curve: "acc imt = Some curve"
      and cs: "shape curve = (total_sites, length imls)"
      by (auto simp: same_shapes_def initial_curves_lookup numpy_ones_def total
          dest!: spec [of _ imt])
    from imls have "imt \<in> set (dict_keys imts)"
      by (auto simp: dict_keys_def dest: map_of_SomeD intro: rev_image_eqI)
    moreover have "distinct (dict_keys imts)" by (simp add: dict_keys_def)
    ultimately obtain curves1 curves2 where
      u: "update_curve g ctx prob r_sites total_sites imts str t c curves1 imt = Inr curves2"
      and c1: "curves1 imt = acc imt" and c2: "acc' imt = curves2 imt"
      using imt_loop_key [OF loop] by blast
    from u imls c1 curve obtain poes curve' where
      poes: "get_poes_cav g ctx imt imls t c = Inr poes"
      and m: "imul curve (expand r_sites (scalar_power (1 - prob) poes) total_sites 1) = Inr curve'"
      and r: "curves2 imt = Some curve'"
      by (auto simp: update_curve_def getitem_def split: sum.splits)
    have "shape curve' = (total_sites, length imls) \<and>
              (\<forall>i j. item curve' i j =
                 item curve i j *
                   item (expand r_sites (scalar_power (1 - prob) poes) total_sites 1) i j) \<and>
              (\<forall>i j. i \<notin> set r_sites \<longrightarrow> item curve' i j = item curve i j) \<and>
              (distinct r_sites \<longrightarrow>
                 (\<forall>k j. k < length r_sites \<longrightarrow>
                    item curve' (r_sites ! k) j =
                      item curve (r_sites ! k) j * float_power (1 - prob) (item poes k j)))"
      if ps: "shape poes = (length r_sites, length imls)"
    proof -
      from fold_step [OF step prob g ctx imls poes ps curve cs] obtain c'' where
        a: "acc' imt = Some c''" and
        b: "shape c'' = (total_sites, length imls) \<and>
              (\<forall>i j. item c'' i j =
                 item curve i j *
                   item (expand r_sites (scalar_power (1 - prob) poes) total_sites 1) i j) \<and>
              (\<forall>i j. i \<notin> set r_sites \<longrightarrow> item c'' i j = item curve i j) \<and>
              (distinct r_sites \<longrightarrow>
                 (\<forall>k j. k < length r_sites \<longrightarrow>
                    item c'' (r_sites ! k) j =
                      item curve (r_sites ! k) j * float_power (1 - prob) (item poes k j)))"
        by blast
      from a r c2 have "c'' = curve'" by simp
      from b show ?thesis unfolding \<open>c'' = curve'\<close> .
    qed
    moreover from r c2 have "acc' imt = Some curve'" by simp
    ultimately show ?thesis using poes curve cs m by blast
  qed
  from prob g ctx each show ?thesis by blast
qed

text \<open>
  Claim C1. Take a call of the calculator that returns, any source the source-site
  filter yields (after the pairs \<open>sources_before\<close>) and any rupture the rupture-site
  filter yields for it (after the pairs \<open>before\<close>). The calculator has then run its
  loops from the curves of ones up to that pair, reaching the accumulator \<open>acc\<close>; for
  every intensity measure type of \<open>imts\<close> it has computed the probabilities of
  exceedance \<open>poes\<close> and replaced the curve of \<open>acc\<close> by its product, element by
  element, with \<open>(1 - prob) ** poes\<close> expanded to all sites with placeholder 1, which
  gives \<open>acc'\<close>; and it has gone on from \<open>acc'\<close> through the remaining ruptures and
  sources to the curves whose complement it returns. When \<open>poes\<close> has one row per site
  of the rupture's collection and one column per level, a site outside the collection
  keeps its values and the \<open>k\<close>-th site of the collection has its values multiplied by
  \<open>(1 - prob) ** poes[k]\<close>.
\<close>

theorem fold_every_pair:
  assumes run: "hazard_curves_poissonian PoissonTOM str sources sites imts time_span gsims
       truncation_level source_site_filter rupture_site_filter cav_min = Inr result"
    and tom: "PoissonTOM time_span = Inr tom"
    and sources_split:
      "source_site_filter (gen_of_list (map (\<lambda>source. (source, sites)) sources)) =
         gen_prepend sources_before (Yield (source, s_sites) sources_rest)"
    and ruptures_split:
      "rupture_site_filter (gen_map (\<lambda>rupture. (rupture, s_sites)) (iter_ruptures source tom)) =
         gen_prepend before (Yield (rupture, r_sites) rest)"
  shows "\<exists>acc0 acc acc' acc1 final prob g ctx.
     source_loop tom gsims (length sites) imts str truncation_level rupture_site_filter cav_min
       (initial_curves sites imts) (gen_of_list sources_before) = Inr acc0 \<and>
     rupture_loop gsims (length sites) imts str truncation_level cav_min acc0
       (gen_of_list before) = Inr acc \<and>
     get_probability_one_or_more_occurrences rupture = Inr prob \<and>
     map_of gsims (tectonic_region_type rupture) = Some g \<and>
     make_contexts g r_sites rupture = Inr ctx \<and>
     (\<forall>imt imls. map_of imts imt = Some imls \<longrightarrow>
        (\<exists>poes curve curve'.
           get_poes_cav g ctx imt imls truncation_level cav_min = Inr poes \<and>
           acc imt = Some curve \<and> shape curve = (length sites, length imls) \<and>
           acc' imt = Some curve' \<and>
           imul curve (expand r_sites (scalar_power (1 - prob) poes) (length sites) 1) =
             Inr curve' \<and>
           (shape poes = (length r_sites, length imls) \<longrightarrow>
              shape curve' = (length sites, length imls) \<and>
              (\<forall>i j. item curve' i j =
                 item curve i j *
                   item (expand r_sites (scalar_power (1 - prob) poes) (length sites) 1) i j) \<and>
              (\<forall>i j. i \<notin> set r_sites \<longrightarrow> item curve' i j = item curve i j) \<and>
              (distinct r_sites \<longrightarrow>
                 (\<forall>k j. k < length r_sites \<longrightarrow>
                    item curve' (r_sites ! k) j =
                      item curve (r_sites ! k) j * float_power (1 - prob) (item poes k j)))))) \<and>
     rupture_loop gsims (length sites) imts str truncation_level cav_min acc' rest = Inr acc1 \<and>
     source_loop tom gsims (length sites) imts str truncation_level rupture_site_filter cav_min
       acc1 sources_rest = Inr final \<and>
     result = complement_loop final (dict_keys imts)"
proof -
  from run tom sources_split obtain final where
    loop: "source_loop tom gsims (length sites) imts str truncation_level rupture_site_filter
       cav_min (initial_curves sites imts)
       (gen_prepend sources_before (Yield (source, s_sites) sources_rest)) = Inr final"
    and res: "result = complement_loop final (dict_keys imts)"
    by (auto simp: hazard_curves_poissonian_def split: sum.splits)
  from source_loop_split [OF loop] obtain acc0 acc1 where
    s0: "source_loop tom gsims (length sites) imts str truncation_level rupture_site_filter
       cav_min (initial_curves sites imts) (gen_of_list sources_before) = Inr acc0"
    and r: "rupture_loop gsims (length sites) imts str truncation_level cav_min acc0
       (rupture_site_filter
          (gen_map (\<lambda>rupture. (rupture, s_sites)) (iter_ruptures source tom))) = Inr acc1"
    and s1: "source_loop tom gsims (length sites) imts str truncation_level rupture_site_filter
       cav_min acc1 sources_rest = Inr final"
    by blast
  from r ruptures_split have "rupture_loop gsims (length sites) imts str truncation_level
       cav_min acc0 (gen_prepend before (Yield (rupture, r_sites) rest)) = Inr acc1"
    by simp
  from rupture_loop_split [OF this] obtain acc acc' where
    r0: "rupture_loop gsims (length sites) imts str truncation_level cav_min acc0
       (gen_of_list before) = Inr acc"
    and step: "process_rupture gsims (length sites) imts str truncation_level cav_min acc
       (rupture, r_sites) = Inr acc'"
    and r1: "rupture_loop gsims (length sites) imts str truncation_level cav_min acc' rest =
       Inr acc1"
    by blast
  from source_loop_shapes [OF s0] rupture_loop_shapes [OF r0]
  have "same_shapes (initial_curves sites imts) acc" by (rule same_shapes_trans)
  from process_rupture_fold [OF step this refl] s0 r0 r1 s1 res
  show ?thesis by blast
qed

theorem fold_every_pair_witness:
  "\<exists>result arr.
     hazard_curves_poissonian stub_tom (\<lambda>imt. imt)
       [stub_source ''src-1'' [stub_rupture ''Active Shallow Crust'' (1/10),
                               stub_rupture ''Active Shallow Crust'' (1/5)]]
       [0, 1, 2] [(''PGA'', [0.1, 0.2])] 50 [(''Active Shallow Crust'', stub_gsim (1/2))] 3
       source_site_noop_filter (filter_pairs (\<lambda>rupture s. Inr (Some [0, 2]))) 0 = Inr result \<and>
     result ''PGA'' = Some arr \<and>
     item arr 1 0 = 0 \<and>
     item arr 2 1 = 1 - float_power (9/10) (1/2) * float_power (4/5) (1/2)"
proof -
  let ?r1 = "stub_rupture ''Active Shallow Crust'' (1/10)"
  let ?r2 = "stub_rupture ''Active Shallow Crust'' (1/5)"
  let ?s1 = "stub_source ''src-1'' [?r1, ?r2]"
  let ?gsims = "[(''Active Shallow Crust'', stub_gsim (1/2))]"
  let ?imts = "[(''PGA'', [0.1, 0.2 :: real])]"
  let ?rsf = "filter_pairs (\<lambda>(rupture :: rupture) (s :: site_collection). Inr (Some [0, 2 :: nat]))"
  let ?c0 = "initial_curves [0, 1, 2] ?imts"
  obtain result where run:
    "hazard_curves_poissonian stub_tom (\<lambda>imt. imt) [?s1] [0, 1, 2] ?imts 50 ?gsims 3
       source_site_noop_filter ?rsf 0 = Inr result"
    by (simp add: hazard_curves_poissonian_def initial_curves_def stub_tom_def stub_source_def
     stub_rupture_def stub_gsim_def source_site_noop_filter_def
     process_source_def process_rupture_def getitem_def dict_keys_def update_curve_def
     numpy_ones_def expand_def scalar_power_def imul_def)
  have tom: "stub_tom 50 = Inr 50" by (simp add: stub_tom_def)
  have ssplit: "source_site_noop_filter (gen_of_list (map (\<lambda>source. (source, [0, 1, 2])) [?s1])) =
      gen_prepend [] (Yield (?s1, [0, 1, 2]) Stop)"
    by (simp add: source_site_noop_filter_def)
  have rsplit: "?rsf (gen_map (\<lambda>rupture. (rupture, [0, 1, 2])) (iter_ruptures ?s1 (50 :: real))) =
      gen_prepend [(?r1, [0, 2])] (Yield (?r2, [0, 2]) Stop)"
    by (simp add: stub_source_def)
  have first: "\<exists>a cv. rupture_loop ?gsims (length [0, 1, 2 :: nat]) ?imts (\<lambda>imt. imt) 3 0 ?c0
        (gen_of_list [(?r1, [0, 2])]) = Inr a \<and> a ''PGA'' = Some cv \<and>
        item cv 1 0 = 1 \<and> item cv 2 1 = float_power (9/10) (1/2)"
    by (simp add: initial_curves_def stub_rupture_def stub_gsim_def
     process_rupture_def getitem_def dict_keys_def update_curve_def
     numpy_ones_def expand_def scalar_power_def imul_def)
  from fold_every_pair [where PoissonTOM = stub_tom and source_site_filter = source_site_noop_filter
      and rupture_site_filter = ?rsf and sources = "[?s1]" and sites = "[0, 1, 2]"
      and tom = 50 and source = ?s1 and s_sites = "[0, 1, 2]" and sources_before = "[]"
      and sources_rest = Stop and before = "[(?r1, [0, 2])]" and rupture = ?r2
      and r_sites = "[0, 2]" and rest = Stop, OF run tom ssplit rsplit]
  obtain acc acc' prob g ctx where
    r0: "rupture_loop ?gsims (length [0, 1, 2 :: nat]) ?imts (\<lambda>imt. imt) 3 0 ?c0
        (gen_of_list [(?r1, [0, 2])]) = Inr acc"
    and prob: "get_probability_one_or_more_occurrences ?r2 = Inr prob"
    and g: "map_of ?gsims (tectonic_region_type ?r2) = Some g"
    and ctx: "make_contexts g [0, 2] ?r2 = Inr ctx"
    and each: "\<forall>imt imls. map_of ?imts imt = Some imls \<longrightarrow>
        (\<exists>poes curve curve'.
           get_poes_cav g ctx imt imls 3 0 = Inr poes \<and>
           acc imt = Some curve \<and> shape curve = (length [0, 1, 2 :: nat], length imls) \<and>
           acc' imt = Some curve' \<and>
           imul curve (expand [0, 2] (scalar_power (1 - prob) poes) (length [0, 1, 2 :: nat]) 1) =
             Inr curve' \<and>
           (shape poes = (length [0, 2 :: nat], length imls) \<longrightarrow>
              shape curve' = (length [0, 1, 2 :: nat], length imls) \<and>
              (\<forall>i j. item curve' i j =
                 item curve i j *
                   item (expand [0, 2] (scalar_power (1 - prob) poes) (length [0, 1, 2 :: nat]) 1) i j) \<and>
              (\<forall>i j. i \<notin> set [0, 2 :: nat] \<longrightarrow> item curve' i j = item curve i j) \<and>
              (distinct [0, 2 :: nat] \<longrightarrow>
                 (\<forall>k j. k < length [0, 2 :: nat] \<longrightarrow>
                    item curve' ([0, 2] ! k) j =
                      item curve ([0, 2] ! k) j * float_power (1 - prob) (item poes k j)))))"
    and res: "result = complement_loop acc' (dict_keys ?imts)"
    by auto
  from prob have p: "prob = 1/5" by (simp add: stub_rupture_def)
  from g have gg: "g = stub_gsim (1/2)" by (simp add: stub_rupture_def)
  from ctx gg have cc: "ctx = [0, 2]" by (simp add: stub_gsim_def)
  have "map_of ?imts ''PGA'' = Some [0.1, 0.2]" by simp
  with each obtain poes curve curve' where
    poes: "get_poes_cav g ctx ''PGA'' [0.1, 0.2] 3 0 = Inr poes"
    and curve: "acc ''PGA'' = Some curve"
    and curve': "acc' ''PGA'' = Some curve'"
    and imp: "shape poes = (length [0, 2 :: nat], length [0.1, 0.2 :: real]) \<longrightarrow>
              shape curve' = (length [0, 1, 2 :: nat], length [0.1, 0.2 :: real]) \<and>
              (\<forall>i j. item curve' i j =
                 item curve i j *
                   item (expand [0, 2] (scalar_power (1 - prob) poes) (length [0, 1, 2 :: nat]) 1) i j) \<and>
              (\<forall>i j. i \<notin> set [0, 2 :: nat] \<longrightarrow> item curve' i j = item curve i j) \<and>
              (distinct [0, 2 :: nat] \<longrightarrow>
                 (\<forall>k j. k < length [0, 2 :: nat] \<longrightarrow>
                    item curve' ([0, 2] ! k) j =
                      item curve ([0, 2] ! k) j * float_power (1 - prob) (item poes k j)))"
    by blast
  from poes gg cc have pp: "poes = \<lparr>shape = (2, 2), item = (\<lambda>i j. 1/2)\<rparr>"
    by (auto simp: stub_gsim_def numeral_2_eq_2)
  from pp have sh: "shape poes = (length [0, 2 :: nat], length [0.1, 0.2 :: real])" by simp
  from imp sh have
    absent: "\<forall>i j. i \<notin> set [0, 2 :: nat] \<longrightarrow> item curve' i j = item curve i j"
    and present: "distinct [0, 2 :: nat] \<longrightarrow>
                 (\<forall>k j. k < length [0, 2 :: nat] \<longrightarrow>
                    item curve' ([0, 2] ! k) j =
                      item curve ([0, 2] ! k) j * float_power (1 - prob) (item poes k j))"
    by blast+
  from first r0 curve have cv: "item curve 1 0 = 1" "item curve 2 1 = float_power (9/10) (1/2)"
    by auto
  have "(1 :: nat) \<notin> set [0, 2]" by simp
  with absent have "item curve' 1 0 = item curve 1 0" by blast
  with cv(1) have a1: "item curve' 1 0 = 1" by simp
  have "distinct [0, 2 :: nat]" "(1 :: nat) < length [0, 2 :: nat]" by simp_all
  with present have "item curve' ([0, 2] ! 1) 1 =
      item curve ([0, 2] ! 1) 1 * float_power (1 - prob) (item poes 1 1)" by blast
  moreover have "1 - prob = 4/5" unfolding p by simp
  ultimately
  have a2: "item curve' 2 1 = float_power (9/10) (1/2) * float_power (4/5) (1/2)"
    using cv(2) pp by simp
  from res curve' have "result ''PGA'' = Some (scalar_minus 1 curve')"
    by (simp add: dict_keys_def)
  moreover have "item (scalar_minus 1 curve') 1 0 = 0" using a1 by (simp add: scalar_minus_def)
  moreover have "item (scalar_minus 1 curve') 2 1 =
      1 - float_power (9/10) (1/2) * float_power (4/5) (1/2)"
    using a2 by (simp add: scalar_minus_def)
  ultimately show ?thesis using run by blast
qed

end
